theory Spec2Isabelle
  imports Complex_Main "HOL-Library.AList"
begin

section \<open>JavaScript values\<close>

text \<open>
  The cloud response, the raw device objects and the values handed over by the host
  (\<^verbatim>\<open>CharacteristicValue\<close>) are untyped at run time, so the fields of a device
  hold JavaScript values. A number is a double: only its truthiness and its identity
  matter to this program (there is no arithmetic), so a finite number is carried as a
  rational and the three special values are separate constructors.
\<close>

datatype jsnum = NaN | PosInf | NegInf | Fin rat

datatype jsval =
    JUndefined
  | JNull
  | JBool bool
  | JNum jsnum
  | JStr string
  | JArr "jsval list"
  | JObj "(string \<times> jsval) list"

datatype exn = TypeError | FetchError | JsonError | SendError | AssertionError | HostError

datatype level = LDebug | LInfo | LWarn | LError

type_synonym logline = "level \<times> string"

text \<open>ToBoolean: what \<^verbatim>\<open>!x\<close>, \<^verbatim>\<open>x || y\<close>, \<^verbatim>\<open>x && y\<close> and \<^verbatim>\<open>x ? a : b\<close> test.\<close>

fun truthy :: "jsval \<Rightarrow> bool" where
  "truthy JUndefined = False"
| "truthy JNull = False"
| "truthy (JBool b) = b"
| "truthy (JNum n) = (n \<noteq> NaN \<and> n \<noteq> Fin 0)"
| "truthy (JStr s) = (s \<noteq> [])"
| "truthy (JArr xs) = True"
| "truthy (JObj kvs) = True"

text \<open>\<^verbatim>\<open>a || b\<close>\<close>

definition js_or :: "jsval \<Rightarrow> jsval \<Rightarrow> jsval" where
  "js_or a b = (if truthy a then a else b)"

text \<open>
  Reading a property of \<^verbatim>\<open>null\<close> or \<^verbatim>\<open>undefined\<close> raises a TypeError. On any
  other value the properties read by this program (\<^verbatim>\<open>devices\<close>, \<^verbatim>\<open>bulb_ID\<close>,
  \<^verbatim>\<open>groupId\<close>, ...) are own properties of an object and \<^verbatim>\<open>undefined\<close> on a
  primitive or an array. An object is the list of its own properties.
\<close>

fun nullish :: "jsval \<Rightarrow> bool" where
  "nullish JUndefined = True"
| "nullish JNull = True"
| "nullish v = False"

fun js_get :: "jsval \<Rightarrow> string \<Rightarrow> jsval" where
  "js_get (JObj kvs) k = (case map_of kvs k of Some v \<Rightarrow> v | None \<Rightarrow> JUndefined)"
| "js_get v k = JUndefined"

section \<open>types.ts\<close>

record TuoLifeBulbDevice =
  brightness :: jsval
  nickname :: jsval
  generation :: jsval
  userId :: jsval
  groupId :: jsval
  bulbId :: jsval
  deviceId :: jsval
  firmwareVersion :: jsval
  isAvailable :: jsval
  modeId :: jsval
  red :: jsval
  green :: jsval
  blue :: jsval
  violet :: jsval
  whiteColor :: jsval

text \<open>\<^verbatim>\<open>deviceModes\<close>\<close>

definition deviceModes_off :: string where
  "deviceModes_off = ''off''"

definition deviceModes_on :: string where
  "deviceModes_on = ''calm5''"

definition deviceModes_active5 :: string where
  "deviceModes_active5 = ''active5''"

section \<open>platform.ts: the fetcher\<close>

text \<open>
  \<^verbatim>\<open>mapDevice\<close>: the debug line is written first; the first property read raises on
  \<^verbatim>\<open>null\<close> and \<^verbatim>\<open>undefined\<close>. The log is threaded through, since a line written
  before an exception stays written.
\<close>

definition mapDevice :: "jsval \<Rightarrow> logline list \<Rightarrow> logline list \<times> (exn + TuoLifeBulbDevice)" where
  "mapDevice device lg =
     (let lg1 = lg @ [(LDebug, ''Raw device data:'')] in
      if nullish device then (lg1, Inl TypeError)
      else
        (if \<not> truthy (js_get device ''bulb_ID'')
         then lg1 @ [(LWarn, ''Device missing bulb_ID:'')] else lg1,
         Inr \<lparr> brightness = js_or (js_get device ''brightness'') (JNum (Fin 0)),
               nickname = js_get device ''nickname'',
               generation = js_or (js_get device ''generation'') (JNum (Fin 1)),
               userId = js_or (js_get device ''userId'') (JStr ''''),
               groupId = js_get device ''groupId'',
               bulbId = js_get device ''bulb_ID'',
               deviceId = js_or (js_get device ''deviceId'') (JStr ''''),
               firmwareVersion = js_or (js_get device ''firmwareVersion'') (JStr ''''),
               isAvailable = js_or (js_get device ''isAvailable'') (JBool False),
               modeId = js_or (js_get device ''modeId'') (JStr ''off''),
               red = js_or (js_get device ''red'') (JNum (Fin 0)),
               green = js_or (js_get device ''green'') (JNum (Fin 0)),
               blue = js_or (js_get device ''blue'') (JNum (Fin 0)),
               violet = js_or (js_get device ''violet'') (JNum (Fin 0)),
               whiteColor = js_or (js_get device ''whiteColor'') (JNum (Fin 0)) \<rparr>))"

text \<open>\<^verbatim>\<open>room.devices.map(this.mapDevice.bind(this))\<close>: left to right, stopping at an exception.\<close>

fun mapDevices :: "jsval list \<Rightarrow> logline list \<Rightarrow> logline list \<times> (exn + TuoLifeBulbDevice list)" where
  "mapDevices [] lg = (lg, Inr [])"
| "mapDevices (x # xs) lg =
     (case mapDevice x lg of
        (lg1, Inl e) \<Rightarrow> (lg1, Inl e)
      | (lg1, Inr d) \<Rightarrow>
          (case mapDevices xs lg1 of
             (lg2, Inl e) \<Rightarrow> (lg2, Inl e)
           | (lg2, Inr ds) \<Rightarrow> (lg2, Inr (d # ds))))"

text \<open>\<^verbatim>\<open>extractDevicesFromRoom\<close>: \<^verbatim>\<open>room.devices && Array.isArray(room.devices)\<close>.\<close>

definition extractDevicesFromRoom ::
  "jsval \<Rightarrow> logline list \<Rightarrow> logline list \<times> (exn + TuoLifeBulbDevice list)" where
  "extractDevicesFromRoom room lg =
     (if nullish room then (lg, Inl TypeError)
      else (case js_get room ''devices'' of
              JArr xs \<Rightarrow> mapDevices xs lg
            | _ \<Rightarrow> (lg, Inr [])))"

text \<open>\<^verbatim>\<open>getAllDevicesFromRooms\<close>: \<^verbatim>\<open>rooms.reduce((acc, room) => [...acc, ...devices], [])\<close>.\<close>

fun reduceRooms ::
  "jsval list \<Rightarrow> TuoLifeBulbDevice list \<Rightarrow> logline list \<Rightarrow>
   logline list \<times> (exn + TuoLifeBulbDevice list)" where
  "reduceRooms [] acc lg = (lg, Inr acc)"
| "reduceRooms (room # rooms) acc lg =
     (case extractDevicesFromRoom room lg of
        (lg1, Inl e) \<Rightarrow> (lg1, Inl e)
      | (lg1, Inr devices) \<Rightarrow> reduceRooms rooms (acc @ devices) lg1)"

definition getAllDevicesFromRooms ::
  "jsval list \<Rightarrow> logline list \<Rightarrow> logline list \<times> (exn + TuoLifeBulbDevice list)" where
  "getAllDevicesFromRooms rooms lg = reduceRooms rooms [] lg"

text \<open>
  What the GET request comes back with: \<^verbatim>\<open>fetch\<close> rejects, \<^verbatim>\<open>response.json()\<close>
  rejects, or a JSON value is parsed.
\<close>

datatype response = FetchRejects | JsonRejects | Body jsval

text \<open>An \<^verbatim>\<open>async\<close> function settles its promise: fulfilled with a value or rejected.\<close>

datatype 'a settled = Rejected exn | Fulfilled 'a

text \<open>The body of the \<^verbatim>\<open>try\<close> block of \<^verbatim>\<open>getDevicesAndStatesFromServer\<close>.\<close>

definition fetchDevices_try ::
  "response \<Rightarrow> logline list \<Rightarrow> logline list \<times> (exn + TuoLifeBulbDevice list)" where
  "fetchDevices_try r lg =
     (case r of
        FetchRejects \<Rightarrow> (lg, Inl FetchError)
      | JsonRejects \<Rightarrow> (lg, Inl JsonError)
      | Body (JArr rooms) \<Rightarrow> getAllDevicesFromRooms rooms lg
      | Body data \<Rightarrow>
          (lg @ [(LError, ''Unexpected API response format - expected array of rooms''),
                 (LError, ''Response:'')], Inr []))"

definition getDevicesAndStatesFromServer ::
  "response \<Rightarrow> logline list \<Rightarrow> logline list \<times> TuoLifeBulbDevice list settled" where
  "getDevicesAndStatesFromServer r lg =
     (case fetchDevices_try r lg of
        (lg1, Inr allDevices) \<Rightarrow> (lg1, Fulfilled allDevices)
      | (lg1, Inl error) \<Rightarrow>
          (lg1 @ [(LError, ''Failed to fetch devices from server:'')], Fulfilled []))"

definition errors_logged :: "logline list \<Rightarrow> nat" where
  "errors_logged lg = length (filter (\<lambda>l. fst l = LError) lg)"

section \<open>Accessories\<close>

text \<open>
  \<^verbatim>\<open>accessory.context.device\<close> is a device object to which the reconciliation adds the
  property \<^verbatim>\<open>on\<close>; it is \<^verbatim>\<open>undefined\<close> until then.
\<close>

record context_device = TuoLifeBulbDevice +
  on :: jsval

text \<open>
  A \<^verbatim>\<open>PlatformAccessory\<close>, with the two characteristics of its Lightbulb service that
  the handler's constructor pushes (\<open>None\<close>: nothing pushed yet).
\<close>

record PlatformAccessory =
  UUID :: string
  displayName :: jsval
  ctx :: context_device
  char_Brightness :: "jsval option"
  char_On :: "jsval option"

text \<open>
  Accessories are objects shared by reference between the host and the platform, so they
  live in a store and are named by their index there. \<^verbatim>\<open>accessories\<close> is a
  \<^verbatim>\<open>Map\<close>, which iterates in insertion order: an association list from uuid to
  reference. The host's registry is seen through the calls made to it; a call is
  recorded when it is made, also when the host answers it by raising. References are
  only made by allocation (\<^verbatim>\<open>configureAccessory\<close>, \<^verbatim>\<open>new platformAccessory\<close>), so
  none points outside the store; an operation on such a reference is written as leaving
  the state alone.
\<close>

datatype host_call = RegisterPlatformAccessories nat | UnregisterPlatformAccessories nat

section \<open>What the program takes from its runtime\<close>

text \<open>
  The functions below belong to the JavaScript runtime and to the host's library, not to
  this repository, and are taken as parameters:
  \<^item> \<open>uuid_generate\<close>: \<^verbatim>\<open>api.hap.uuid.generate\<close> on a string;
  \<^item> \<open>uuid_generate_other\<close>: the same call on a value that is not a string (it may raise);
  \<^item> \<open>toString_other\<close>: \<^verbatim>\<open>v.toString()\<close> on a truthy value that is not a string;
  \<^item> \<open>toNumber_other\<close>: \<^verbatim>\<open>Number(v)\<close> on a string, an array or an object;
  \<^item> \<open>platformAccessory_raises\<close>: whether the host's constructor
    \<^verbatim>\<open>new api.platformAccessory(displayName, uuid)\<close> raises on this name and uuid (the
    host refuses a missing name), and with what;
  \<^item> \<open>registerPlatformAccessories_raises\<close>: whether the host answers the registration of
    the accessory at a reference by raising (it does on a uuid it already holds), given
    the objects there are and the calls made to it before.
\<close>

record runtime =
  uuid_generate :: "string \<Rightarrow> string"
  uuid_generate_other :: "jsval \<Rightarrow> exn + string"
  toString_other :: "jsval \<Rightarrow> string"
  toNumber_other :: "jsval \<Rightarrow> jsnum"
  platformAccessory_raises :: "jsval \<Rightarrow> string \<Rightarrow> exn option"
  registerPlatformAccessories_raises :: "PlatformAccessory list \<Rightarrow> host_call list \<Rightarrow> nat \<Rightarrow> exn option"

definition js_toString :: "runtime \<Rightarrow> jsval \<Rightarrow> string" where
  "js_toString rt v = (case v of JStr s \<Rightarrow> s | _ \<Rightarrow> toString_other rt v)"

definition js_Number :: "runtime \<Rightarrow> jsval \<Rightarrow> jsval" where
  "js_Number rt v =
     (case v of
        JNum n \<Rightarrow> JNum n
      | JUndefined \<Rightarrow> JNum NaN
      | JNull \<Rightarrow> JNum (Fin 0)
      | JBool b \<Rightarrow> JNum (Fin (if b then 1 else 0))
      | _ \<Rightarrow> JNum (toNumber_other rt v))"

definition hap_uuid_generate :: "runtime \<Rightarrow> jsval \<Rightarrow> exn + string" where
  "hap_uuid_generate rt v =
     (case v of JStr s \<Rightarrow> Inr (uuid_generate rt s) | _ \<Rightarrow> uuid_generate_other rt v)"

section \<open>The platform\<close>

record platform =
  accessories :: "(string \<times> nat) list"
  discoveredCacheUUIDs :: "string list"
  apiKey :: jsval
  isDiscoveryInProgress :: bool
  store :: "PlatformAccessory list"
  host_calls :: "host_call list"
  log_lines :: "logline list"

definition say :: "level \<Rightarrow> string \<Rightarrow> platform \<Rightarrow> platform" where
  "say l msg p = p\<lparr>log_lines := log_lines p @ [(l, msg)]\<rparr>"

text \<open>The constructor of the platform, from \<^verbatim>\<open>config.apiKey\<close>.\<close>

definition ExampleHomebridgePlatform :: "jsval \<Rightarrow> platform" where
  "ExampleHomebridgePlatform config_apiKey =
     (let key = js_or config_apiKey (JStr '''');
          p = \<lparr> accessories = [], discoveredCacheUUIDs = [], apiKey = key,
                isDiscoveryInProgress = False, store = [], host_calls = [], log_lines = [] \<rparr>;
          p1 = (if \<not> truthy key
                then say LError ''No API key provided in config. Plugin may not function correctly.'' p
                else p)
      in say LDebug ''Finished initializing platform:'' (say LDebug ''API key:'' p1))"

text \<open>
  \<^verbatim>\<open>configureAccessory\<close>: the host restores an accessory object from its cache and hands
  it over; \<^verbatim>\<open>Map.set\<close> replaces the value of a key already present, in place.
\<close>

definition configureAccessory :: "PlatformAccessory \<Rightarrow> platform \<Rightarrow> platform" where
  "configureAccessory accessory p =
     (let r = length (store p);
          p1 = say LInfo ''Loading accessory from cache:'' (p\<lparr>store := store p @ [accessory]\<rparr>);
          p2 = p1\<lparr>accessories := AList.update (UUID accessory) r (accessories p1)\<rparr>
      in say LInfo ''Accessory state:'' (say LInfo ''Accessory brightness:'' p2))"

text \<open>
  The constructor of \<^verbatim>\<open>TuoLifeBulbAccessory\<close> on the accessory at reference \<open>r\<close>: it
  writes the debug line and pushes brightness and power, power being read from
  \<^verbatim>\<open>modeId\<close>. The accessory-information and name characteristics and the handler
  registrations stay on the host's side and are not tracked.
\<close>

definition new_TuoLifeBulbAccessory :: "nat \<Rightarrow> platform \<Rightarrow> platform" where
  "new_TuoLifeBulbAccessory r p =
     (if r < length (store p) then
        (let a = store p ! r;
             p1 = say LDebug ''Bulb Constructor: '' p
         in p1\<lparr>store := (store p1)[r := a\<lparr>char_Brightness := Some (brightness (ctx a)),
                                           char_On := Some (JBool (modeId (ctx a) \<noteq> JStr ''off''))\<rparr>]\<rparr>)
      else p)"

text \<open>The two assignments to \<^verbatim>\<open>context.device\<close> shared by both reconciliations.\<close>

definition update_context :: "runtime \<Rightarrow> TuoLifeBulbDevice \<Rightarrow> nat \<Rightarrow> platform \<Rightarrow> platform" where
  "update_context rt device r p =
     (if r < length (store p) then
        (let a = store p ! r
         in p\<lparr>store := (store p)[r := a\<lparr>ctx := (ctx a)
                 \<lparr>brightness := js_Number rt (brightness device),
                  on := JBool (modeId device \<noteq> JStr ''off'')\<rparr>\<rparr>]\<rparr>)
      else p)"

text \<open>
  The body of the first loop of \<^verbatim>\<open>registerDevices\<close>, returned with the exception
  that leaves it, if any. For a new device the host's constructor may raise, before
  anything is allocated; the registration may raise, after the call is made. In both
  cases the uuid is not pushed.
\<close>

definition registerDevice ::
  "runtime \<Rightarrow> TuoLifeBulbDevice \<Rightarrow> platform \<Rightarrow> platform \<times> exn option" where
  "registerDevice rt device p =
     (if \<not> truthy (bulbId device) then (say LError ''Device missing bulbId:'' p, None)
      else
        (let uuid = uuid_generate rt (js_toString rt (bulbId device)) in
         case map_of (accessories p) uuid of
           Some existingAccessory \<Rightarrow>
             (let p1 = new_TuoLifeBulbAccessory existingAccessory
                         (update_context rt device existingAccessory
                            (say LInfo ''Restoring existing accessory from cache:'' p))
              in (p1\<lparr>discoveredCacheUUIDs := discoveredCacheUUIDs p1 @ [uuid]\<rparr>, None))
         | None \<Rightarrow>
             (let p2 = say LInfo ''Adding new accessory:'' p in
              case platformAccessory_raises rt (nickname device) uuid of
                Some e \<Rightarrow> (p2, Some e)
              | None \<Rightarrow>
                  (let r = length (store p2);
                       accessory = \<lparr> UUID = uuid, displayName = nickname device,
                                     ctx = TuoLifeBulbDevice.extend device
                                             (context_device.fields JUndefined),
                                     char_Brightness = None, char_On = None \<rparr>;
                       p3 = new_TuoLifeBulbAccessory r (p2\<lparr>store := store p2 @ [accessory]\<rparr>);
                       p4 = p3\<lparr>host_calls := host_calls p3 @ [RegisterPlatformAccessories r]\<rparr>
                   in case registerPlatformAccessories_raises rt (store p3) (host_calls p3) r of
                        Some e \<Rightarrow> (p4, Some e)
                      | None \<Rightarrow>
                          (p4\<lparr>discoveredCacheUUIDs := discoveredCacheUUIDs p4 @ [uuid]\<rparr>, None)))))"

fun registerLoop ::
  "runtime \<Rightarrow> TuoLifeBulbDevice list \<Rightarrow> platform \<Rightarrow> platform \<times> exn option" where
  "registerLoop rt [] p = (p, None)"
| "registerLoop rt (device # devices) p =
     (case registerDevice rt device p of
        (p1, Some e) \<Rightarrow> (p1, Some e)
      | (p1, None) \<Rightarrow> registerLoop rt devices p1)"

text \<open>The second loop of \<^verbatim>\<open>registerDevices\<close>, over the entries of \<^verbatim>\<open>accessories\<close>.\<close>

fun removeLoop :: "(string \<times> nat) list \<Rightarrow> platform \<Rightarrow> platform" where
  "removeLoop [] p = p"
| "removeLoop ((uuid, accessory) # rest) p =
     removeLoop rest
       (if uuid \<notin> set (discoveredCacheUUIDs p)
        then (say LInfo ''Removing existing accessory from cache:'' p)
               \<lparr>host_calls := host_calls p @ [UnregisterPlatformAccessories accessory]\<rparr>
        else p)"

text \<open>
  \<^verbatim>\<open>registerDevices\<close>: an exception of the first loop leaves the function, so the
  second loop is not reached.
\<close>

definition registerDevices ::
  "runtime \<Rightarrow> TuoLifeBulbDevice list \<Rightarrow> platform \<Rightarrow> platform \<times> exn option" where
  "registerDevices rt devices p =
     (case registerLoop rt devices (say LDebug ''Registering devices:'' p) of
        (p1, Some e) \<Rightarrow> (p1, Some e)
      | (p1, None) \<Rightarrow> (removeLoop (accessories p1) p1, None))"

text \<open>\<^verbatim>\<open>updateHomeKit\<close>\<close>

definition updateHomeKit :: "platform \<Rightarrow> platform" where
  "updateHomeKit p = say LDebug ''Updating HomeKit for bulb:'' p"

text \<open>
  The loop of \<^verbatim>\<open>syncBulbsWithServer\<close>: its body once the uuid is there, and the
  loop, which an exception of the uuid generation leaves; the exception is returned with
  the state reached.
\<close>

definition syncDevice :: "runtime \<Rightarrow> string \<Rightarrow> TuoLifeBulbDevice \<Rightarrow> platform \<Rightarrow> platform" where
  "syncDevice rt uuid device p =
     (case map_of (accessories p) uuid of
        Some accessory \<Rightarrow>
          updateHomeKit (new_TuoLifeBulbAccessory accessory (update_context rt device accessory p))
      | None \<Rightarrow> p)"

fun syncLoop :: "runtime \<Rightarrow> TuoLifeBulbDevice list \<Rightarrow> platform \<Rightarrow> platform \<times> exn option" where
  "syncLoop rt [] p = (p, None)"
| "syncLoop rt (device # devices) p =
     (case hap_uuid_generate rt (bulbId device) of
        Inl e \<Rightarrow> (p, Some e)
      | Inr uuid \<Rightarrow> syncLoop rt devices (syncDevice rt uuid device p))"

text \<open>
  \<^verbatim>\<open>syncBulbsWithServer\<close> from the moment its request has come back: the rest of
  the \<^verbatim>\<open>try\<close> block on the devices fetched, and the \<^verbatim>\<open>catch\<close>.
\<close>

definition syncDevices :: "runtime \<Rightarrow> TuoLifeBulbDevice list \<Rightarrow> platform \<Rightarrow> platform" where
  "syncDevices rt devices p =
     (case syncLoop rt devices p of
        (p1, Some e) \<Rightarrow> say LError ''Failed to sync bulbs with server:'' p1
      | (p1, None) \<Rightarrow> p1)"

definition syncBulbsWithServer_resume :: "runtime \<Rightarrow> response \<Rightarrow> platform \<Rightarrow> platform" where
  "syncBulbsWithServer_resume rt r p =
     (case getDevicesAndStatesFromServer r (log_lines p) of
        (lg, Rejected e) \<Rightarrow> say LError ''Failed to sync bulbs with server:'' (p\<lparr>log_lines := lg\<rparr>)
      | (lg, Fulfilled devices) \<Rightarrow> syncDevices rt devices (p\<lparr>log_lines := lg\<rparr>))"

text \<open>
  The continuation of \<^verbatim>\<open>discoverDevices\<close>:
  \<^verbatim>\<open>getDevicesAndStatesFromServer().then(devices => this.registerDevices(devices))\<close>.
  Nothing handles the promise of \<^verbatim>\<open>then\<close>, so an exception of
  \<^verbatim>\<open>registerDevices\<close> is returned as an unhandled rejection.
\<close>

definition discoverDevices_resume ::
  "runtime \<Rightarrow> response \<Rightarrow> platform \<Rightarrow> platform \<times> exn option" where
  "discoverDevices_resume rt r p =
     (case getDevicesAndStatesFromServer r (log_lines p) of
        (lg, Rejected e) \<Rightarrow> (p\<lparr>log_lines := lg\<rparr>, Some e)
      | (lg, Fulfilled devices) \<Rightarrow> registerDevices rt devices (p\<lparr>log_lines := lg\<rparr>))"

section \<open>platform.ts: sending a command\<close>

text \<open>The JSON body of \<^verbatim>\<open>POST /mode/roomModeStart\<close>, before \<^verbatim>\<open>JSON.stringify\<close>.\<close>

record roomModeStart =
  body_groupId :: jsval
  body_modeId :: jsval
  body_brightness :: jsval
  body_red :: jsval
  body_green :: jsval
  body_blue :: jsval
  body_violet :: jsval
  body_whiteColor :: jsval

text \<open>
  What happens to one call of \<^verbatim>\<open>sendBulbUpdateToServer\<close>: an exception is raised inside
  it before the request is issued (by \<^verbatim>\<open>JSON.stringify\<close>, or by the call of
  \<^verbatim>\<open>fetch\<close> where the runtime has none), or the request is issued and the promise of
  \<^verbatim>\<open>fetch\<close> is later rejected or fulfilled. That promise is neither awaited nor
  returned, so its rejection reaches no \<^verbatim>\<open>catch\<close> of this program; it is recorded as
  unhandled.
\<close>

datatype send_outcome = SendThrows | FetchRejected | FetchFulfilled

record network =
  requests :: "roomModeStart list"
  unhandled :: "exn list"

definition sendBulbUpdateToServer ::
  "send_outcome \<Rightarrow> TuoLifeBulbDevice \<Rightarrow> network \<Rightarrow> network \<times> unit settled" where
  "sendBulbUpdateToServer oc bulb net =
     (let bodyValue = \<lparr> body_groupId = groupId bulb, body_modeId = modeId bulb,
                         body_brightness = brightness bulb, body_red = red bulb,
                         body_green = green bulb, body_blue = blue bulb,
                         body_violet = violet bulb, body_whiteColor = whiteColor bulb \<rparr>
      in case oc of
           SendThrows \<Rightarrow> (net, Rejected SendError)
         | FetchRejected \<Rightarrow>
             (net\<lparr>requests := requests net @ [bodyValue],
                  unhandled := unhandled net @ [FetchError]\<rparr>, Fulfilled ())
         | FetchFulfilled \<Rightarrow> (net\<lparr>requests := requests net @ [bodyValue]\<rparr>, Fulfilled ()))"

section \<open>The accessory handler\<close>

text \<open>
  A \<^verbatim>\<open>TuoLifeBulbAccessory\<close> with what it reaches: the accessory it is bound to, its
  own \<^verbatim>\<open>lastChanged\<close>, the platform's log and the network. The version modelled is the
  one whose handlers read and write \<^verbatim>\<open>accessory.context.device\<close> through getters.
\<close>

record TuoLifeBulbAccessory =
  accessory :: PlatformAccessory
  lastChanged :: nat
  platform_log :: "logline list"
  net :: network

definition debug :: "string \<Rightarrow> TuoLifeBulbAccessory \<Rightarrow> TuoLifeBulbAccessory" where
  "debug msg b = b\<lparr>platform_log := platform_log b @ [(LDebug, msg)]\<rparr>"

definition error :: "string \<Rightarrow> TuoLifeBulbAccessory \<Rightarrow> TuoLifeBulbAccessory" where
  "error msg b = b\<lparr>platform_log := platform_log b @ [(LError, msg)]\<rparr>"

definition getBrightness :: "TuoLifeBulbAccessory \<Rightarrow> jsval" where
  "getBrightness b = brightness (ctx (accessory b))"

definition getModeId :: "TuoLifeBulbAccessory \<Rightarrow> jsval" where
  "getModeId b = modeId (ctx (accessory b))"

text \<open>\<^verbatim>\<open>getOn\<close>: the value returned (its two debug lines are left out).\<close>

definition getOn :: "TuoLifeBulbAccessory \<Rightarrow> jsval" where
  "getOn b = JBool (getModeId b \<noteq> JStr deviceModes_off)"

text \<open>The object \<^verbatim>\<open>aBulb\<close> that both handlers build from the getters.\<close>

definition snapshot :: "TuoLifeBulbAccessory \<Rightarrow> jsval \<Rightarrow> jsval \<Rightarrow> TuoLifeBulbDevice" where
  "snapshot b new_modeId new_brightness =
     (let d = ctx (accessory b)
      in \<lparr> brightness = new_brightness, nickname = nickname d, generation = generation d,
            userId = userId d, groupId = groupId d, bulbId = bulbId d, deviceId = deviceId d,
            firmwareVersion = firmwareVersion d, isAvailable = isAvailable d,
            modeId = new_modeId, red = red d, green = green d, blue = blue d,
            violet = violet d, whiteColor = whiteColor d \<rparr>)"

text \<open>
  \<^verbatim>\<open>setOn\<close> up to its \<^verbatim>\<open>try\<close>: the local update, made before anything is sent.
\<close>

definition setOn_local :: "nat \<Rightarrow> jsval \<Rightarrow> TuoLifeBulbAccessory \<Rightarrow> TuoLifeBulbAccessory" where
  "setOn_local now v b =
     (let b1 = debug ''setOn called with value:'' b;
          a = accessory b1;
          b2 = b1\<lparr>accessory := a\<lparr>ctx := (ctx a)
                  \<lparr>modeId := JStr (if truthy v then deviceModes_on else deviceModes_off)\<rparr>\<rparr>,
                  lastChanged := now\<rparr>
      in debug (if truthy v then ''Turning on device'' else ''Turning off device'') b2)"

definition setOn_aBulb :: "runtime \<Rightarrow> jsval \<Rightarrow> TuoLifeBulbAccessory \<Rightarrow> TuoLifeBulbDevice" where
  "setOn_aBulb rt v b =
     snapshot b (JStr (if truthy v then deviceModes_on else deviceModes_off))
                (if truthy v then js_Number rt (getBrightness b) else JNum (Fin 5))"

definition setOn ::
  "runtime \<Rightarrow> send_outcome \<Rightarrow> nat \<Rightarrow> jsval \<Rightarrow> TuoLifeBulbAccessory \<Rightarrow>
   TuoLifeBulbAccessory \<times> unit settled" where
  "setOn rt oc now v b =
     (let b1 = setOn_local now v b;
          aBulb = setOn_aBulb rt v b1;
          b2 = (case sendBulbUpdateToServer oc aBulb (net b1) of
                  (n, Fulfilled u) \<Rightarrow> debug ''Successfully sent update to server'' (b1\<lparr>net := n\<rparr>)
                | (n, Rejected e) \<Rightarrow>
                    debug ''Device body:'' (error ''Error sending setOn to server:'' (b1\<lparr>net := n\<rparr>)))
      in (debug ''Set Characteristic On ->'' b2, Fulfilled ()))"

definition setBrightness_local ::
  "runtime \<Rightarrow> nat \<Rightarrow> jsval \<Rightarrow> TuoLifeBulbAccessory \<Rightarrow> TuoLifeBulbAccessory" where
  "setBrightness_local rt now v b =
     (let a = accessory b
      in b\<lparr>accessory := a\<lparr>ctx := (ctx a)\<lparr>brightness := js_Number rt v\<rparr>\<rparr>, lastChanged := now\<rparr>)"

definition setBrightness_aBulb :: "runtime \<Rightarrow> jsval \<Rightarrow> TuoLifeBulbAccessory \<Rightarrow> TuoLifeBulbDevice" where
  "setBrightness_aBulb rt v b = snapshot b (JStr deviceModes_on) (js_Number rt v)"

definition setBrightness ::
  "runtime \<Rightarrow> send_outcome \<Rightarrow> nat \<Rightarrow> jsval \<Rightarrow> TuoLifeBulbAccessory \<Rightarrow>
   TuoLifeBulbAccessory \<times> unit settled" where
  "setBrightness rt oc now v b =
     (let b1 = setBrightness_local rt now v b;
          aBulb = setBrightness_aBulb rt v b1;
          b2 = (case sendBulbUpdateToServer oc aBulb (net b1) of
                  (n, Fulfilled u) \<Rightarrow> debug ''Successfully sent update to server'' (b1\<lparr>net := n\<rparr>)
                | (n, Rejected e) \<Rightarrow>
                    debug ''Device body:''
                      (error ''Error sending setBrightness to server:'' (b1\<lparr>net := n\<rparr>)));
          a = accessory b2;
          b3 = b2\<lparr>accessory := a\<lparr>ctx := (ctx a)\<lparr>brightness := v\<rparr>\<rparr>\<rparr>
      in (debug ''Set Characteristic Brightness -> '' b3, Fulfilled ()))"

section \<open>The event loop\<close>

text \<open>
  The program is single-threaded: the host hands over each cached accessory through
  \<^verbatim>\<open>configureAccessory\<close>, its launch event calls \<^verbatim>\<open>discoverDevices\<close>,
  the 5-second interval calls \<^verbatim>\<open>syncBulbsWithServer\<close>, and each GET request issued by
  them comes back later, in any order. The world is the platform, the requests still
  pending (each with the continuation waiting for it), the number of requests issued and
  the rejections that nothing handled.
\<close>

datatype waiting = Discover | Sync

record world =
  plat :: platform
  pending :: "waiting list"
  fetch_calls :: nat
  unhandled_rejections :: "exn list"

datatype event =
    ConfigureAccessory PlatformAccessory
  | DidFinishLaunching
  | IntervalFires
  | FetchSettles nat response

definition discoverDevices :: "world \<Rightarrow> world" where
  "discoverDevices w =
     (if isDiscoveryInProgress (plat w)
      then w\<lparr>plat := say LDebug ''Device discovery already in progress, skipping...'' (plat w)\<rparr>
      else w\<lparr>plat := (plat w)\<lparr>isDiscoveryInProgress := True\<rparr>,
             pending := pending w @ [Discover],
             fetch_calls := Suc (fetch_calls w)\<rparr>)"

definition syncBulbsWithServer :: "world \<Rightarrow> world" where
  "syncBulbsWithServer w =
     w\<lparr>pending := pending w @ [Sync], fetch_calls := Suc (fetch_calls w)\<rparr>"

definition settle :: "runtime \<Rightarrow> nat \<Rightarrow> response \<Rightarrow> world \<Rightarrow> world" where
  "settle rt i r w =
     (if i < length (pending w) then
        (let w1 = w\<lparr>pending := take i (pending w) @ drop (Suc i) (pending w)\<rparr>
         in case pending w ! i of
              Discover \<Rightarrow>
                (case discoverDevices_resume rt r (plat w) of
                   (p, Some e) \<Rightarrow>
                     w1\<lparr>plat := p, unhandled_rejections := unhandled_rejections w1 @ [e]\<rparr>
                 | (p, None) \<Rightarrow> w1\<lparr>plat := p\<rparr>)
            | Sync \<Rightarrow> w1\<lparr>plat := syncBulbsWithServer_resume rt r (plat w)\<rparr>)
      else w)"

fun step :: "runtime \<Rightarrow> world \<Rightarrow> event \<Rightarrow> world" where
  "step rt w (ConfigureAccessory a) = w\<lparr>plat := configureAccessory a (plat w)\<rparr>"
| "step rt w DidFinishLaunching =
     discoverDevices (w\<lparr>plat := say LDebug ''Executed didFinishLaunching callback'' (plat w)\<rparr>)"
| "step rt w IntervalFires = syncBulbsWithServer w"
| "step rt w (FetchSettles i r) = settle rt i r w"

fun run :: "runtime \<Rightarrow> world \<Rightarrow> event list \<Rightarrow> world" where
  "run rt w [] = w"
| "run rt w (e # es) = run rt (step rt w e) es"

text \<open>The world right after the platform's constructor.\<close>

definition boot :: "jsval \<Rightarrow> world" where
  "boot config_apiKey =
     \<lparr> plat = ExampleHomebridgePlatform config_apiKey, pending = [], fetch_calls = 0,
       unhandled_rejections = [] \<rparr>"

section \<open>Notions used to state the properties\<close>

text \<open>
  The uuid that \<^verbatim>\<open>registerDevices\<close> derives from a device, and the uuids it derives
  from a fetched list: devices with a falsy \<^verbatim>\<open>bulbId\<close> are skipped.
\<close>

definition uuid_of :: "runtime \<Rightarrow> TuoLifeBulbDevice \<Rightarrow> string" where
  "uuid_of rt device = uuid_generate rt (js_toString rt (bulbId device))"

definition derived_uuids :: "runtime \<Rightarrow> TuoLifeBulbDevice list \<Rightarrow> string list" where
  "derived_uuids rt devices = map (uuid_of rt) (filter (\<lambda>d. truthy (bulbId d)) devices)"

text \<open>The references passed to the host's unregister and register operations.\<close>

fun unregistered :: "host_call list \<Rightarrow> nat list" where
  "unregistered [] = []"
| "unregistered (UnregisterPlatformAccessories r # cs) = r # unregistered cs"
| "unregistered (RegisterPlatformAccessories r # cs) = unregistered cs"

fun registered :: "host_call list \<Rightarrow> nat list" where
  "registered [] = []"
| "registered (RegisterPlatformAccessories r # cs) = r # registered cs"
| "registered (UnregisterPlatformAccessories r # cs) = registered cs"

text \<open>The host calls made between two states, and the uuids of the accessories registered by them.\<close>

definition calls_made :: "platform \<Rightarrow> platform \<Rightarrow> host_call list" where
  "calls_made before after = drop (length (host_calls before)) (host_calls after)"

definition registered_uuids :: "platform \<Rightarrow> platform \<Rightarrow> string list" where
  "registered_uuids before after =
     map (\<lambda>r. UUID (store after ! r)) (registered (calls_made before after))"

section \<open>A runtime for concrete evaluation\<close>

text \<open>
  The theorems hold for every runtime. Where one is evaluated at a concrete input, this
  runtime stands in: a uuid is its bulb id with a prefix, a value that is not a string
  makes the uuid generation raise, the conversions of other values are constant, the
  host's constructor raises on a falsy name, and the host's registration raises on an
  accessory whose uuid is that of an accessory registered before.
\<close>

definition sample_runtime :: runtime where
  "sample_runtime =
     \<lparr> uuid_generate = (\<lambda>s. ''uuid-'' @ s),
       uuid_generate_other = (\<lambda>v. Inl TypeError),
       toString_other = (\<lambda>v. ''[object Object]''),
       toNumber_other = (\<lambda>v. NaN),
       platformAccessory_raises = (\<lambda>name uuid. if truthy name then None else Some AssertionError),
       registerPlatformAccessories_raises =
         (\<lambda>st cs r. if UUID (st ! r) \<in> set (map (\<lambda>k. UUID (st ! k)) (registered cs))
                     then Some HostError else None) \<rparr>"

section \<open>Fixtures for concrete evaluation\<close>

text \<open>A fetched device and a cached accessory with the given bulb id, brightness and mode.\<close>

definition sample_device :: "string \<Rightarrow> rat \<Rightarrow> string \<Rightarrow> TuoLifeBulbDevice" where
  "sample_device b n m =
     \<lparr> brightness = JNum (Fin n), nickname = JStr ''lamp'', generation = JNum (Fin 1),
       userId = JStr '''', groupId = JStr ''g'', bulbId = JStr b, deviceId = JStr '''',
       firmwareVersion = JStr '''', isAvailable = JBool True, modeId = JStr m,
       red = JNum (Fin 0), green = JNum (Fin 0), blue = JNum (Fin 0),
       violet = JNum (Fin 0), whiteColor = JNum (Fin 0) \<rparr>"

definition sample_accessory :: "string \<Rightarrow> rat \<Rightarrow> string \<Rightarrow> PlatformAccessory" where
  "sample_accessory b n m =
     \<lparr> UUID = uuid_generate sample_runtime b, displayName = JStr ''lamp'',
       ctx = TuoLifeBulbDevice.extend (sample_device b n m) (context_device.fields JUndefined),
       char_Brightness = None, char_On = None \<rparr>"

text \<open>The platform after the host has restored two accessories, A and B.\<close>

definition platform_AB :: platform where
  "platform_AB =
     configureAccessory (sample_accessory ''B'' 20 ''calm5'')
       (configureAccessory (sample_accessory ''A'' 50 ''calm5'')
          (ExampleHomebridgePlatform (JStr ''key'')))"

text \<open>A handler bound to a cached accessory, with an empty log and nothing sent yet.\<close>

definition sample_bulb :: "string \<Rightarrow> rat \<Rightarrow> string \<Rightarrow> TuoLifeBulbAccessory" where
  "sample_bulb b n m =
     \<lparr> accessory = sample_accessory b n m, lastChanged = 0, platform_log = [],
       net = \<lparr> requests = [], unhandled = [] \<rparr> \<rparr>"

chapter \<open>Properties\<close>

section \<open>The fetcher\<close>

lemma errors_logged_append: "errors_logged (a @ b) = errors_logged a + errors_logged b"
  by (simp add: errors_logged_def)

lemma mapDevice_errors: "errors_logged (fst (mapDevice x lg)) = errors_logged lg"
  by (simp add: mapDevice_def Let_def errors_logged_def)

lemma mapDevices_errors: "errors_logged (fst (mapDevices xs lg)) = errors_logged lg"
proof (induction xs arbitrary: lg)
  case Nil
  show ?case by simp
next
  case (Cons x xs)
  obtain lg1 res where m: "mapDevice x lg = (lg1, res)" by (cases "mapDevice x lg")
  have e1: "errors_logged lg1 = errors_logged lg" using mapDevice_errors [of x lg] m by simp
  show ?case
  proof (cases res)
    case (Inl e)
    with m e1 show ?thesis by simp
  next
    case (Inr d)
    obtain lg2 res2 where m2: "mapDevices xs lg1 = (lg2, res2)" by (cases "mapDevices xs lg1")
    have "errors_logged lg2 = errors_logged lg1" using Cons.IH [of lg1] m2 by simp
    with m m2 Inr e1 show ?thesis by (cases res2) simp_all
  qed
qed

lemma extractDevicesFromRoom_errors:
  "errors_logged (fst (extractDevicesFromRoom room lg)) = errors_logged lg"
  by (simp add: extractDevicesFromRoom_def mapDevices_errors split: jsval.splits)

lemma reduceRooms_errors: "errors_logged (fst (reduceRooms rooms acc lg)) = errors_logged lg"
proof (induction rooms arbitrary: acc lg)
  case Nil
  show ?case by simp
next
  case (Cons room rooms)
  obtain lg1 res where m: "extractDevicesFromRoom room lg = (lg1, res)"
    by (cases "extractDevicesFromRoom room lg")
  have e1: "errors_logged lg1 = errors_logged lg"
    using extractDevicesFromRoom_errors [of room lg] m by simp
  show ?case using m e1 Cons.IH by (cases res) simp_all
qed

lemma fetchDevices_try_errors_array:
  "errors_logged (fst (fetchDevices_try (Body (JArr rooms)) lg)) = errors_logged lg"
  by (simp add: fetchDevices_try_def getAllDevicesFromRooms_def reduceRooms_errors)

text \<open>
  C5, as the code has it. \<^verbatim>\<open>getDevicesAndStatesFromServer\<close> never rejects: whatever comes
  back, its promise is fulfilled with a device list. The list is empty whenever the
  response is not a parsed JSON array, and whenever anything raises inside the
  \<^verbatim>\<open>try\<close> block (the request, the parsing, or the normalisation of an array that holds
  \<^verbatim>\<open>null\<close>); an exception adds exactly one error line. A parsed body that is not an
  array, a JSON object for one, adds exactly two error lines, not one: the message and
  the response.
\<close>

theorem getDevicesAndStatesFromServer_never_rejects:
  "(\<exists>lg' ds. getDevicesAndStatesFromServer r lg = (lg', Fulfilled ds)) \<and>
   ((\<forall>rooms. r \<noteq> Body (JArr rooms)) \<longrightarrow>
      snd (getDevicesAndStatesFromServer r lg) = Fulfilled []) \<and>
   ((\<exists>e. snd (fetchDevices_try r lg) = Inl e) \<longrightarrow>
      snd (getDevicesAndStatesFromServer r lg) = Fulfilled [] \<and>
      errors_logged (fst (getDevicesAndStatesFromServer r lg)) = errors_logged lg + 1) \<and>
   ((\<exists>v. r = Body v \<and> (\<forall>rooms. v \<noteq> JArr rooms)) \<longrightarrow>
      errors_logged (fst (getDevicesAndStatesFromServer r lg)) = errors_logged lg + 2)"
proof (intro conjI impI)
  show "\<exists>lg' ds. getDevicesAndStatesFromServer r lg = (lg', Fulfilled ds)"
    by (cases "fetchDevices_try r lg")
       (auto simp: getDevicesAndStatesFromServer_def split: sum.splits)
next
  assume "\<forall>rooms. r \<noteq> Body (JArr rooms)"
  then show "snd (getDevicesAndStatesFromServer r lg) = Fulfilled []"
    by (auto simp: getDevicesAndStatesFromServer_def fetchDevices_try_def
             split: response.splits jsval.splits)
next
  assume "\<exists>e. snd (fetchDevices_try r lg) = Inl e"
  then obtain e lg1 where t: "fetchDevices_try r lg = (lg1, Inl e)"
    by (cases "fetchDevices_try r lg") auto
  then show "snd (getDevicesAndStatesFromServer r lg) = Fulfilled []"
    by (simp add: getDevicesAndStatesFromServer_def)
  have "errors_logged lg1 = errors_logged lg"
  proof (cases r)
    case FetchRejects
    with t show ?thesis by (simp add: fetchDevices_try_def)
  next
    case JsonRejects
    with t show ?thesis by (simp add: fetchDevices_try_def)
  next
    case (Body v)
    show ?thesis
    proof (cases "\<exists>rooms. v = JArr rooms")
      case True
      then obtain rooms where "v = JArr rooms" by blast
      with Body t fetchDevices_try_errors_array [of rooms lg] show ?thesis by simp
    next
      case False
      with Body t show ?thesis by (cases v) (simp_all add: fetchDevices_try_def)
    qed
  qed
  with t show "errors_logged (fst (getDevicesAndStatesFromServer r lg)) = errors_logged lg + 1"
    by (simp add: getDevicesAndStatesFromServer_def errors_logged_append)
       (simp add: errors_logged_def)
next
  assume "\<exists>v. r = Body v \<and> (\<forall>rooms. v \<noteq> JArr rooms)"
  then obtain v where r: "r = Body v" and v: "\<forall>rooms. v \<noteq> JArr rooms" by blast
  show "errors_logged (fst (getDevicesAndStatesFromServer r lg)) = errors_logged lg + 2"
    using r v
    by (cases v)
       (simp_all add: getDevicesAndStatesFromServer_def fetchDevices_try_def errors_logged_def)
qed

text \<open>
  The theorem at a JSON object, at a rejected request and at an array holding
  \<^verbatim>\<open>null\<close>.
\<close>

theorem getDevicesAndStatesFromServer_never_rejects_witness:
  "(\<forall>rooms. Body (JObj []) \<noteq> Body (JArr rooms)) \<and>
   (\<exists>v. Body (JObj []) = Body v \<and> (\<forall>rooms. v \<noteq> JArr rooms)) \<and>
   snd (getDevicesAndStatesFromServer (Body (JObj [])) []) = Fulfilled [] \<and>
   errors_logged (fst (getDevicesAndStatesFromServer (Body (JObj [])) [])) = 2 \<and>
   (\<exists>e. snd (fetchDevices_try FetchRejects []) = Inl e) \<and>
   snd (getDevicesAndStatesFromServer FetchRejects []) = Fulfilled [] \<and>
   errors_logged (fst (getDevicesAndStatesFromServer FetchRejects [])) = 1 \<and>
   (\<exists>e. snd (fetchDevices_try (Body (JArr [JNull])) []) = Inl e) \<and>
   snd (getDevicesAndStatesFromServer (Body (JArr [JNull])) []) = Fulfilled []"
proof -
  have h1: "\<forall>rooms. Body (JObj []) \<noteq> Body (JArr rooms)" by simp
  have h2: "\<exists>v. Body (JObj []) = Body v \<and> (\<forall>rooms. v \<noteq> JArr rooms)" by simp
  have h3: "\<exists>e. snd (fetchDevices_try FetchRejects []) = Inl e"
    by (simp add: fetchDevices_try_def)
  have h4: "\<exists>e. snd (fetchDevices_try (Body (JArr [JNull])) []) = Inl e"
    by (simp add: fetchDevices_try_def getAllDevicesFromRooms_def extractDevicesFromRoom_def)
  have e0: "errors_logged [] = 0" by (simp add: errors_logged_def)
  show ?thesis
    using h1 h2 h3 h4 e0
      getDevicesAndStatesFromServer_never_rejects [of "Body (JObj [])" "[]"]
      getDevicesAndStatesFromServer_never_rejects [of FetchRejects "[]"]
      getDevicesAndStatesFromServer_never_rejects [of "Body (JArr [JNull])" "[]"]
    by simp
qed

text \<open>
  C5 as the specification words it fails: on a JSON object two error lines are written,
  so "exactly one error is logged" does not hold.
\<close>

theorem one_error_logged_counterexample:
  "getDevicesAndStatesFromServer (Body (JObj [])) [] =
     ([(LError, ''Unexpected API response format - expected array of rooms''),
       (LError, ''Response:'')], Fulfilled [])
   \<and> errors_logged (fst (getDevicesAndStatesFromServer (Body (JObj [])) [])) \<noteq> 1"
  by (simp add: getDevicesAndStatesFromServer_def fetchDevices_try_def errors_logged_def)

text \<open>
  C6, as the code has it. A raw device that is not \<^verbatim>\<open>null\<close> or \<^verbatim>\<open>undefined\<close> is
  always normalised. \<^verbatim>\<open>bulbId\<close> is the wire field \<^verbatim>\<open>bulb_ID\<close> as it is, and
  \<^verbatim>\<open>groupId\<close> and \<^verbatim>\<open>nickname\<close> are copied as they are, so all three are
  \<^verbatim>\<open>undefined\<close> when absent. A field that is absent or falsy on the wire becomes:
  \<^verbatim>\<open>"off"\<close> for \<^verbatim>\<open>modeId\<close>, the number 1 for \<^verbatim>\<open>generation\<close>, the empty string for
  \<^verbatim>\<open>userId\<close>, \<^verbatim>\<open>deviceId\<close> and \<^verbatim>\<open>firmwareVersion\<close>, \<^verbatim>\<open>false\<close> for
  \<^verbatim>\<open>isAvailable\<close>, and 0 for brightness and the five colour channels; a truthy wire
  value of these fields is kept as it is. A falsy \<^verbatim>\<open>bulb_ID\<close> is logged as a
  warning, a truthy one is not.
\<close>

theorem mapDevice_defaults:
  assumes "\<not> nullish device"
  shows "\<exists>d. snd (mapDevice device lg) = Inr d
    \<and> bulbId d = js_get device ''bulb_ID''
    \<and> groupId d = js_get device ''groupId''
    \<and> nickname d = js_get device ''nickname''
    \<and> (\<not> truthy (js_get device ''modeId'') \<longrightarrow> modeId d = JStr ''off'')
    \<and> (\<not> truthy (js_get device ''generation'') \<longrightarrow> generation d = JNum (Fin 1))
    \<and> (\<not> truthy (js_get device ''userId'') \<longrightarrow> userId d = JStr '''')
    \<and> (\<not> truthy (js_get device ''deviceId'') \<longrightarrow> deviceId d = JStr '''')
    \<and> (\<not> truthy (js_get device ''firmwareVersion'') \<longrightarrow> firmwareVersion d = JStr '''')
    \<and> (\<not> truthy (js_get device ''isAvailable'') \<longrightarrow> isAvailable d = JBool False)
    \<and> (\<not> truthy (js_get device ''brightness'') \<longrightarrow> brightness d = JNum (Fin 0))
    \<and> (\<not> truthy (js_get device ''red'') \<longrightarrow> red d = JNum (Fin 0))
    \<and> (\<not> truthy (js_get device ''green'') \<longrightarrow> green d = JNum (Fin 0))
    \<and> (\<not> truthy (js_get device ''blue'') \<longrightarrow> blue d = JNum (Fin 0))
    \<and> (\<not> truthy (js_get device ''violet'') \<longrightarrow> violet d = JNum (Fin 0))
    \<and> (\<not> truthy (js_get device ''whiteColor'') \<longrightarrow> whiteColor d = JNum (Fin 0))
    \<and> (\<not> truthy (js_get device ''bulb_ID'') \<longrightarrow>
          fst (mapDevice device lg) =
            lg @ [(LDebug, ''Raw device data:''), (LWarn, ''Device missing bulb_ID:'')])
    \<and> (truthy (js_get device ''modeId'') \<longrightarrow> modeId d = js_get device ''modeId'')
    \<and> (truthy (js_get device ''generation'') \<longrightarrow> generation d = js_get device ''generation'')
    \<and> (truthy (js_get device ''userId'') \<longrightarrow> userId d = js_get device ''userId'')
    \<and> (truthy (js_get device ''deviceId'') \<longrightarrow> deviceId d = js_get device ''deviceId'')
    \<and> (truthy (js_get device ''firmwareVersion'') \<longrightarrow>
          firmwareVersion d = js_get device ''firmwareVersion'')
    \<and> (truthy (js_get device ''isAvailable'') \<longrightarrow> isAvailable d = js_get device ''isAvailable'')
    \<and> (truthy (js_get device ''brightness'') \<longrightarrow> brightness d = js_get device ''brightness'')
    \<and> (truthy (js_get device ''red'') \<longrightarrow> red d = js_get device ''red'')
    \<and> (truthy (js_get device ''green'') \<longrightarrow> green d = js_get device ''green'')
    \<and> (truthy (js_get device ''blue'') \<longrightarrow> blue d = js_get device ''blue'')
    \<and> (truthy (js_get device ''violet'') \<longrightarrow> violet d = js_get device ''violet'')
    \<and> (truthy (js_get device ''whiteColor'') \<longrightarrow> whiteColor d = js_get device ''whiteColor'')
    \<and> (truthy (js_get device ''bulb_ID'') \<longrightarrow>
          fst (mapDevice device lg) = lg @ [(LDebug, ''Raw device data:'')])"
  using assms by (simp add: mapDevice_def Let_def js_or_def)

text \<open>
  The theorem at the empty object, where every field is absent, and at an object that
  carries an id, a mode and a brightness.
\<close>

theorem mapDevice_defaults_witness:
  "\<not> nullish (JObj []) \<and> \<not> truthy (js_get (JObj []) ''modeId'')
   \<and> modeId (projr (snd (mapDevice (JObj []) []))) = JStr ''off''
   \<and> generation (projr (snd (mapDevice (JObj []) []))) = JNum (Fin 1)
   \<and> userId (projr (snd (mapDevice (JObj []) []))) = JStr ''''
   \<and> isAvailable (projr (snd (mapDevice (JObj []) []))) = JBool False
   \<and> brightness (projr (snd (mapDevice (JObj []) []))) = JNum (Fin 0)
   \<and> whiteColor (projr (snd (mapDevice (JObj []) []))) = JNum (Fin 0)
   \<and> fst (mapDevice (JObj []) []) =
       [(LDebug, ''Raw device data:''), (LWarn, ''Device missing bulb_ID:'')]
   \<and> truthy (js_get (JObj [(''bulb_ID'', JStr ''A''), (''modeId'', JStr ''calm5''),
                             (''brightness'', JNum (Fin 80))]) ''modeId'')
   \<and> modeId (projr (snd (mapDevice (JObj [(''bulb_ID'', JStr ''A''), (''modeId'', JStr ''calm5''),
                             (''brightness'', JNum (Fin 80))]) []))) = JStr ''calm5''
   \<and> brightness (projr (snd (mapDevice (JObj [(''bulb_ID'', JStr ''A''), (''modeId'', JStr ''calm5''),
                             (''brightness'', JNum (Fin 80))]) []))) = JNum (Fin 80)
   \<and> bulbId (projr (snd (mapDevice (JObj [(''bulb_ID'', JStr ''A''), (''modeId'', JStr ''calm5''),
                             (''brightness'', JNum (Fin 80))]) []))) = JStr ''A''
   \<and> fst (mapDevice (JObj [(''bulb_ID'', JStr ''A''), (''modeId'', JStr ''calm5''),
                             (''brightness'', JNum (Fin 80))]) []) = [(LDebug, ''Raw device data:'')]"
  using mapDevice_defaults [of "JObj []" "[]"]
        mapDevice_defaults [of "JObj [(''bulb_ID'', JStr ''A''), (''modeId'', JStr ''calm5''),
                             (''brightness'', JNum (Fin 80))]" "[]"]
  by auto

text \<open>
  C6 as the specification words it fails at the empty object: \<^verbatim>\<open>bulbId\<close>,
  \<^verbatim>\<open>groupId\<close> and \<^verbatim>\<open>nickname\<close> are \<^verbatim>\<open>undefined\<close> and \<^verbatim>\<open>generation\<close> is 1, none
  of them the empty string.
\<close>

theorem mapDevice_empty_string_counterexample:
  "bulbId (projr (snd (mapDevice (JObj []) []))) = JUndefined
   \<and> bulbId (projr (snd (mapDevice (JObj []) []))) \<noteq> JStr ''''
   \<and> groupId (projr (snd (mapDevice (JObj []) []))) \<noteq> JStr ''''
   \<and> nickname (projr (snd (mapDevice (JObj []) []))) \<noteq> JStr ''''
   \<and> generation (projr (snd (mapDevice (JObj []) []))) \<noteq> JStr ''''"
  by (simp add: mapDevice_def Let_def js_or_def)

section \<open>Fields that the platform operations leave alone\<close>

lemma say_fields:
  "accessories (say l m p) = accessories p"
  "discoveredCacheUUIDs (say l m p) = discoveredCacheUUIDs p"
  "isDiscoveryInProgress (say l m p) = isDiscoveryInProgress p"
  "store (say l m p) = store p"
  "host_calls (say l m p) = host_calls p"
  by (simp_all add: say_def)

lemma new_TuoLifeBulbAccessory_fields:
  "accessories (new_TuoLifeBulbAccessory r p) = accessories p"
  "discoveredCacheUUIDs (new_TuoLifeBulbAccessory r p) = discoveredCacheUUIDs p"
  "isDiscoveryInProgress (new_TuoLifeBulbAccessory r p) = isDiscoveryInProgress p"
  "host_calls (new_TuoLifeBulbAccessory r p) = host_calls p"
  "length (store (new_TuoLifeBulbAccessory r p)) = length (store p)"
  by (simp_all add: new_TuoLifeBulbAccessory_def Let_def say_fields)

lemma new_TuoLifeBulbAccessory_ctx:
  "ctx (store (new_TuoLifeBulbAccessory r p) ! i) = ctx (store p ! i)"
  by (cases "i = r"; simp add: new_TuoLifeBulbAccessory_def Let_def say_fields)

lemma update_context_fields:
  "accessories (update_context rt d r p) = accessories p"
  "discoveredCacheUUIDs (update_context rt d r p) = discoveredCacheUUIDs p"
  "isDiscoveryInProgress (update_context rt d r p) = isDiscoveryInProgress p"
  "host_calls (update_context rt d r p) = host_calls p"
  "length (store (update_context rt d r p)) = length (store p)"
  by (simp_all add: update_context_def Let_def)

lemma update_context_modeId:
  "modeId (ctx (store (update_context rt d r p) ! i)) = modeId (ctx (store p ! i))"
  by (cases "i = r"; simp add: update_context_def Let_def)

section \<open>The first loop of registerDevices\<close>

lemma registerDevice_accessories: "accessories (fst (registerDevice rt d p)) = accessories p"
  by (simp add: registerDevice_def Let_def say_fields new_TuoLifeBulbAccessory_fields
        update_context_fields split: option.splits)

lemma registerDevice_flag:
  "isDiscoveryInProgress (fst (registerDevice rt d p)) = isDiscoveryInProgress p"
  by (simp add: registerDevice_def Let_def say_fields new_TuoLifeBulbAccessory_fields
        update_context_fields split: option.splits)

lemma registerDevice_discovered:
  assumes "snd (registerDevice rt d p) = None"
  shows "discoveredCacheUUIDs (fst (registerDevice rt d p)) =
           discoveredCacheUUIDs p @ derived_uuids rt [d]"
  using assms
  by (simp add: registerDevice_def Let_def say_fields new_TuoLifeBulbAccessory_fields
        update_context_fields derived_uuids_def uuid_of_def split: option.splits if_splits)

lemma registerDevice_calls:
  "host_calls (fst (registerDevice rt d p)) =
     host_calls p @
       (if truthy (bulbId d) \<and> map_of (accessories p) (uuid_of rt d) = None \<and>
           platformAccessory_raises rt (nickname d) (uuid_of rt d) = None
        then [RegisterPlatformAccessories (length (store p))] else [])"
  by (simp add: registerDevice_def Let_def say_fields new_TuoLifeBulbAccessory_fields
        update_context_fields uuid_of_def split: option.splits)

lemma registerDevice_length:
  "length (store p) \<le> length (store (fst (registerDevice rt d p)))"
  by (simp add: registerDevice_def Let_def say_fields new_TuoLifeBulbAccessory_fields
        update_context_fields split: option.splits)

lemma registerDevice_modeId:
  assumes "i < length (store p)"
  shows "modeId (ctx (store (fst (registerDevice rt d p)) ! i)) = modeId (ctx (store p ! i))"
  using assms
  by (simp add: registerDevice_def Let_def say_fields new_TuoLifeBulbAccessory_ctx
        update_context_modeId nth_append split: option.splits)

lemma registerLoop_accessories: "accessories (fst (registerLoop rt ds p)) = accessories p"
proof (induction ds arbitrary: p)
  case Nil
  show ?case by simp
next
  case (Cons d ds)
  obtain p1 e where r: "registerDevice rt d p = (p1, e)" by (cases "registerDevice rt d p")
  have "accessories p1 = accessories p" using registerDevice_accessories [of rt d p] r by simp
  then show ?case using r Cons.IH [of p1] by (cases e) simp_all
qed

lemma registerLoop_flag:
  "isDiscoveryInProgress (fst (registerLoop rt ds p)) = isDiscoveryInProgress p"
proof (induction ds arbitrary: p)
  case Nil
  show ?case by simp
next
  case (Cons d ds)
  obtain p1 e where r: "registerDevice rt d p = (p1, e)" by (cases "registerDevice rt d p")
  have "isDiscoveryInProgress p1 = isDiscoveryInProgress p"
    using registerDevice_flag [of rt d p] r by simp
  then show ?case using r Cons.IH [of p1] by (cases e) simp_all
qed

lemma derived_uuids_Cons: "derived_uuids rt (d # ds) = derived_uuids rt [d] @ derived_uuids rt ds"
  by (simp add: derived_uuids_def)

lemma registerLoop_discovered:
  assumes "snd (registerLoop rt ds p) = None"
  shows "discoveredCacheUUIDs (fst (registerLoop rt ds p)) =
           discoveredCacheUUIDs p @ derived_uuids rt ds"
  using assms
proof (induction ds arbitrary: p)
  case Nil
  show ?case by (simp add: derived_uuids_def)
next
  case (Cons d ds)
  obtain p1 e where r: "registerDevice rt d p = (p1, e)" by (cases "registerDevice rt d p")
  show ?case
  proof (cases e)
    case None
    have d1: "discoveredCacheUUIDs p1 = discoveredCacheUUIDs p @ derived_uuids rt [d]"
      using registerDevice_discovered [of rt d p] r None by simp
    have "snd (registerLoop rt ds p1) = None" using Cons.prems r None by simp
    from Cons.IH [OF this] show ?thesis
      using r None d1 by (simp add: derived_uuids_Cons [of rt d ds])
  next
    case (Some x)
    with Cons.prems r show ?thesis by simp
  qed
qed

lemma unregistered_append: "unregistered (a @ b) = unregistered a @ unregistered b"
  by (induction a rule: unregistered.induct) simp_all

lemma registered_append: "registered (a @ b) = registered a @ registered b"
  by (induction a rule: registered.induct) simp_all

lemma registerLoop_calls:
  "\<exists>cs. host_calls (fst (registerLoop rt ds p)) = host_calls p @ cs \<and> unregistered cs = []"
proof (induction ds arbitrary: p)
  case Nil
  show ?case by simp
next
  case (Cons d ds)
  obtain p1 e where r: "registerDevice rt d p = (p1, e)" by (cases "registerDevice rt d p")
  from registerDevice_calls [of rt d p] r
  obtain c1 where c1: "host_calls p1 = host_calls p @ c1" "unregistered c1 = []"
    by (cases "truthy (bulbId d) \<and> map_of (accessories p) (uuid_of rt d) = None \<and>
           platformAccessory_raises rt (nickname d) (uuid_of rt d) = None") auto
  show ?case
  proof (cases e)
    case None
    from Cons.IH [of p1] obtain cs where
      "host_calls (fst (registerLoop rt ds p1)) = host_calls p1 @ cs" "unregistered cs = []"
      by blast
    with c1 r None have "host_calls (fst (registerLoop rt (d # ds) p)) = host_calls p @ (c1 @ cs)"
      "unregistered (c1 @ cs) = []"
      by (simp_all add: unregistered_append)
    then show ?thesis by blast
  next
    case (Some x)
    with c1 r have "host_calls (fst (registerLoop rt (d # ds) p)) = host_calls p @ c1" by simp
    with c1(2) show ?thesis by blast
  qed
qed

text \<open>
  Neither reconciliation writes \<^verbatim>\<open>modeId\<close>: an accessory that was there before keeps
  the mode it had, whatever is fetched.
\<close>

lemma registerLoop_modeId:
  assumes "i < length (store p)"
  shows "i < length (store (fst (registerLoop rt ds p))) \<and>
         modeId (ctx (store (fst (registerLoop rt ds p)) ! i)) = modeId (ctx (store p ! i))"
  using assms
proof (induction ds arbitrary: p)
  case Nil
  then show ?case by simp
next
  case (Cons d ds)
  obtain p1 e where r: "registerDevice rt d p = (p1, e)" by (cases "registerDevice rt d p")
  have i1: "i < length (store p1)"
    using Cons.prems registerDevice_length [of p rt d] r by simp
  have m1: "modeId (ctx (store p1 ! i)) = modeId (ctx (store p ! i))"
    using registerDevice_modeId [OF Cons.prems, of rt d] r by simp
  show ?case using r i1 m1 Cons.IH [OF i1] by (cases e) simp_all
qed

section \<open>The whole of registerDevices\<close>

lemma removeLoop_fields:
  "accessories (removeLoop xs p) = accessories p"
  "discoveredCacheUUIDs (removeLoop xs p) = discoveredCacheUUIDs p"
  "isDiscoveryInProgress (removeLoop xs p) = isDiscoveryInProgress p"
  "store (removeLoop xs p) = store p"
  by (induction xs p rule: removeLoop.induct) (simp_all add: say_fields)

lemma removeLoop_calls:
  "host_calls (removeLoop xs p) =
     host_calls p @ map UnregisterPlatformAccessories
        (map snd (filter (\<lambda>e. fst e \<notin> set (discoveredCacheUUIDs p)) xs))"
  by (induction xs p rule: removeLoop.induct) (simp_all add: say_fields)

lemma unregistered_map_unregister:
  "unregistered (map (UnregisterPlatformAccessories \<circ> f) xs) = map f xs"
  by (induction xs) simp_all

lemma registerDevices_accessories: "accessories (fst (registerDevices rt ds p)) = accessories p"
  using registerLoop_accessories [of rt ds "say LDebug ''Registering devices:'' p"]
  by (cases "registerLoop rt ds (say LDebug ''Registering devices:'' p)";
      cases "snd (registerLoop rt ds (say LDebug ''Registering devices:'' p))")
     (simp_all add: registerDevices_def removeLoop_fields say_fields)

lemma registerDevices_flag:
  "isDiscoveryInProgress (fst (registerDevices rt ds p)) = isDiscoveryInProgress p"
  using registerLoop_flag [of rt ds "say LDebug ''Registering devices:'' p"]
  by (cases "registerLoop rt ds (say LDebug ''Registering devices:'' p)";
      cases "snd (registerLoop rt ds (say LDebug ''Registering devices:'' p))")
     (simp_all add: registerDevices_def removeLoop_fields say_fields)

lemma registerDevices_modeId:
  assumes "i < length (store p)"
  shows "modeId (ctx (store (fst (registerDevices rt ds p)) ! i)) = modeId (ctx (store p ! i))"
proof -
  have "i < length (store (say LDebug ''Registering devices:'' p))"
    using assms by (simp add: say_fields)
  from registerLoop_modeId [OF this, of rt ds] show ?thesis
    by (cases "registerLoop rt ds (say LDebug ''Registering devices:'' p)";
        cases "snd (registerLoop rt ds (say LDebug ''Registering devices:'' p))")
       (simp_all add: registerDevices_def removeLoop_fields say_fields)
qed

lemma registerDevices_unregistered:
  "unregistered (calls_made p (fst (registerDevices rt ds p))) =
     (if snd (registerDevices rt ds p) = None
      then map snd (filter (\<lambda>e. fst e \<notin> set (discoveredCacheUUIDs p) \<union> set (derived_uuids rt ds))
                           (accessories p))
      else [])"
proof -
  let ?p0 = "say LDebug ''Registering devices:'' p"
  obtain p1 e where l: "registerLoop rt ds ?p0 = (p1, e)" by (cases "registerLoop rt ds ?p0")
  from registerLoop_calls [of rt ds ?p0] l obtain cs where
    cs: "host_calls p1 = host_calls p @ cs" "unregistered cs = []"
    by (auto simp: say_fields)
  have acc: "accessories p1 = accessories p"
    using registerLoop_accessories [of rt ds ?p0] l by (simp add: say_fields)
  show ?thesis
  proof (cases e)
    case None
    have "discoveredCacheUUIDs p1 = discoveredCacheUUIDs p @ derived_uuids rt ds"
      using registerLoop_discovered [of rt ds ?p0] l None by (simp add: say_fields)
    then show ?thesis
      using l None cs acc
      by (simp add: registerDevices_def calls_made_def removeLoop_calls unregistered_append
            unregistered_map_unregister)
  next
    case (Some x)
    then show ?thesis
      using l cs by (simp add: registerDevices_def calls_made_def)
  qed
qed

section \<open>The poll\<close>

lemma syncDevice_fields:
  "accessories (syncDevice rt u d p) = accessories p"
  "host_calls (syncDevice rt u d p) = host_calls p"
  "discoveredCacheUUIDs (syncDevice rt u d p) = discoveredCacheUUIDs p"
  "isDiscoveryInProgress (syncDevice rt u d p) = isDiscoveryInProgress p"
  "length (store (syncDevice rt u d p)) = length (store p)"
  by (simp_all add: syncDevice_def updateHomeKit_def say_fields new_TuoLifeBulbAccessory_fields
        update_context_fields split: option.splits)

lemma syncDevice_modeId:
  "modeId (ctx (store (syncDevice rt u d p) ! i)) = modeId (ctx (store p ! i))"
  by (simp add: syncDevice_def updateHomeKit_def say_fields new_TuoLifeBulbAccessory_ctx
        update_context_modeId split: option.splits)

lemma syncLoop_fields:
  "accessories (fst (syncLoop rt ds p)) = accessories p \<and>
   host_calls (fst (syncLoop rt ds p)) = host_calls p \<and>
   discoveredCacheUUIDs (fst (syncLoop rt ds p)) = discoveredCacheUUIDs p \<and>
   isDiscoveryInProgress (fst (syncLoop rt ds p)) = isDiscoveryInProgress p \<and>
   length (store (fst (syncLoop rt ds p))) = length (store p) \<and>
   modeId (ctx (store (fst (syncLoop rt ds p)) ! i)) = modeId (ctx (store p ! i))"
proof (induction ds arbitrary: p)
  case Nil
  show ?case by simp
next
  case (Cons d ds)
  show ?case
    by (simp add: Cons.IH syncDevice_fields syncDevice_modeId split: sum.splits)
qed

lemma syncDevices_fields:
  "accessories (syncDevices rt ds p) = accessories p"
  "host_calls (syncDevices rt ds p) = host_calls p"
  "discoveredCacheUUIDs (syncDevices rt ds p) = discoveredCacheUUIDs p"
  "isDiscoveryInProgress (syncDevices rt ds p) = isDiscoveryInProgress p"
  "length (store (syncDevices rt ds p)) = length (store p)"
  "modeId (ctx (store (syncDevices rt ds p) ! i)) = modeId (ctx (store p ! i))"
  using syncLoop_fields [of rt ds p i]
  by (cases "syncLoop rt ds p"; cases "snd (syncLoop rt ds p)";
      simp add: syncDevices_def say_fields)+

section \<open>Reconciliation\<close>

text \<open>
  When every fetched device with a truthy \<^verbatim>\<open>bulbId\<close> is known to the mapping, no
  new accessory is made and nothing can raise.
\<close>

lemma registerLoop_no_new:
  assumes "\<forall>d\<in>set ds. truthy (bulbId d) \<longrightarrow> map_of (accessories p) (uuid_of rt d) \<noteq> None"
  shows "snd (registerLoop rt ds p) = None"
  using assms
proof (induction ds arbitrary: p)
  case Nil
  show ?case by simp
next
  case (Cons d ds)
  obtain p1 e where r: "registerDevice rt d p = (p1, e)" by (cases "registerDevice rt d p")
  have "truthy (bulbId d) \<longrightarrow> map_of (accessories p) (uuid_of rt d) \<noteq> None"
    using Cons.prems by simp
  then have "snd (registerDevice rt d p) = None"
    by (auto simp: registerDevice_def Let_def uuid_of_def split: option.splits)
  with r have e: "e = None" by simp
  have "accessories p1 = accessories p" using registerDevice_accessories [of rt d p] r by simp
  with Cons.prems have "\<forall>x\<in>set ds. truthy (bulbId x) \<longrightarrow> map_of (accessories p1) (uuid_of rt x) \<noteq> None"
    by simp
  from Cons.IH [OF this] show ?case using r e by simp
qed

lemma registerDevices_no_new:
  assumes "\<forall>d\<in>set ds. truthy (bulbId d) \<longrightarrow> map_of (accessories p) (uuid_of rt d) \<noteq> None"
  shows "snd (registerDevices rt ds p) = None"
proof -
  have "snd (registerLoop rt ds (say LDebug ''Registering devices:'' p)) = None"
    using assms by (intro registerLoop_no_new) (simp add: say_fields)
  then show ?thesis
    by (cases "registerLoop rt ds (say LDebug ''Registering devices:'' p)")
       (simp add: registerDevices_def)
qed

lemma fixture_facts:
  "accessories platform_AB = [(''uuid-A'', 0), (''uuid-B'', 1)]"
  "discoveredCacheUUIDs platform_AB = []"
  "derived_uuids sample_runtime [sample_device ''A'' 80 ''off''] = [''uuid-A'']"
  "uuid_of sample_runtime (sample_device ''A'' 80 ''off'') = ''uuid-A''"
  "truthy (bulbId (sample_device ''A'' 80 ''off''))"
  by code_simp+

text \<open>
  C1, as the code has it. \<^verbatim>\<open>registerDevices\<close> removes nothing from the platform's
  own \<^verbatim>\<open>accessories\<close> mapping, which is the same after as before. When the run
  completes, it has called the host's unregister operation for exactly the accessories of
  the mapping whose uuid is neither in \<^verbatim>\<open>discoveredCacheUUIDs\<close> already (empty at
  start-up) nor derived from a fetched device with a truthy \<^verbatim>\<open>bulbId\<close>, in the
  mapping's order. When the host raises on a new accessory (its constructor, or the
  registration), the run stops in the first loop and unregisters nothing. The run
  completes whenever no fetched device is new. The 5-second poll makes no host call at
  all and leaves the mapping as it is: it only updates.
\<close>

theorem stale_accessories:
  "accessories (fst (registerDevices rt ds p)) = accessories p \<and>
   (snd (registerDevices rt ds p) = None \<longrightarrow>
      unregistered (calls_made p (fst (registerDevices rt ds p))) =
        map snd (filter (\<lambda>e. fst e \<notin> set (discoveredCacheUUIDs p) \<union> set (derived_uuids rt ds))
                        (accessories p))) \<and>
   (snd (registerDevices rt ds p) \<noteq> None \<longrightarrow>
      unregistered (calls_made p (fst (registerDevices rt ds p))) = []) \<and>
   ((\<forall>d\<in>set ds. truthy (bulbId d) \<longrightarrow> map_of (accessories p) (uuid_of rt d) \<noteq> None) \<longrightarrow>
      snd (registerDevices rt ds p) = None) \<and>
   accessories (syncDevices rt ds p) = accessories p \<and>
   calls_made p (syncDevices rt ds p) = []"
proof -
  have poll: "calls_made p (syncDevices rt ds p) = []"
    by (simp add: calls_made_def syncDevices_fields)
  show ?thesis
    using registerDevices_no_new [of ds p rt]
    by (simp add: registerDevices_accessories registerDevices_unregistered syncDevices_fields poll)
qed

text \<open>
  The theorem at the mapping \<open>{A, B}\<close> and a fetch returning only A, where the
  start-up reconciliation completes, unregisters B (reference 1) and keeps both entries
  of the mapping; and at a fetch returning a new device without a name, where the host's
  constructor raises and nothing is unregistered.
\<close>

theorem stale_accessories_witness:
  "accessories platform_AB = [(''uuid-A'', 0), (''uuid-B'', 1)] \<and>
   derived_uuids sample_runtime [sample_device ''A'' 80 ''off''] = [''uuid-A''] \<and>
   snd (registerDevices sample_runtime [sample_device ''A'' 80 ''off''] platform_AB) = None \<and>
   unregistered (calls_made platform_AB
     (fst (registerDevices sample_runtime [sample_device ''A'' 80 ''off''] platform_AB))) = [1] \<and>
   accessories (fst (registerDevices sample_runtime [sample_device ''A'' 80 ''off''] platform_AB)) =
     [(''uuid-A'', 0), (''uuid-B'', 1)] \<and>
   calls_made platform_AB (syncDevices sample_runtime [sample_device ''A'' 80 ''off''] platform_AB) = [] \<and>
   snd (registerDevices sample_runtime
          [(sample_device ''C'' 10 ''calm5'')\<lparr>nickname := JUndefined\<rparr>] platform_AB) \<noteq> None \<and>
   unregistered (calls_made platform_AB
     (fst (registerDevices sample_runtime
             [(sample_device ''C'' 10 ''calm5'')\<lparr>nickname := JUndefined\<rparr>] platform_AB))) = []"
proof -
  have n: "\<forall>d\<in>set [sample_device ''A'' 80 ''off'']. truthy (bulbId d) \<longrightarrow>
             map_of (accessories platform_AB) (uuid_of sample_runtime d) \<noteq> None"
    by (simp add: fixture_facts)
  have c: "snd (registerDevices sample_runtime
          [(sample_device ''C'' 10 ''calm5'')\<lparr>nickname := JUndefined\<rparr>] platform_AB) =
            Some AssertionError"
    by code_simp
  show ?thesis
    using n c
      stale_accessories [of sample_runtime "[sample_device ''A'' 80 ''off'']" platform_AB]
      stale_accessories [of sample_runtime
        "[(sample_device ''C'' 10 ''calm5'')\<lparr>nickname := JUndefined\<rparr>]" platform_AB]
    by (simp add: fixture_facts)
qed

text \<open>
  C1 as the specification words it fails at \<open>{A, B}\<close> and a fetch returning only A:
  after the poll B has not been unregistered and is still in the mapping, and after the
  start-up reconciliation B is still in the mapping.
\<close>

theorem stale_accessories_counterexample:
  "host_calls (syncDevices sample_runtime [sample_device ''A'' 80 ''off''] platform_AB) = [] \<and>
   map_of (accessories (syncDevices sample_runtime [sample_device ''A'' 80 ''off''] platform_AB))
     ''uuid-B'' = Some 1 \<and>
   map_of (accessories (fst (registerDevices sample_runtime [sample_device ''A'' 80 ''off''] platform_AB)))
     ''uuid-B'' = Some 1"
  by code_simp

text \<open>
  C2, evaluated on an empty mapping with one fetched device, A, reconciled twice. The
  first run registers a new accessory with the uuid of A and leaves the mapping empty;
  the second run finds the uuid missing from the mapping again, makes a second accessory
  with the same uuid and calls the host's register operation for it. The same happens
  within one run when a device is listed twice.
\<close>

theorem registerDevices_registers_again:
  "snd (registerDevices sample_runtime [sample_device ''A'' 80 ''off'']
          (ExampleHomebridgePlatform (JStr ''key''))) = None \<and>
   registered_uuids (ExampleHomebridgePlatform (JStr ''key''))
     (fst (registerDevices sample_runtime [sample_device ''A'' 80 ''off'']
        (ExampleHomebridgePlatform (JStr ''key'')))) = [''uuid-A''] \<and>
   accessories (fst (registerDevices sample_runtime [sample_device ''A'' 80 ''off'']
        (ExampleHomebridgePlatform (JStr ''key'')))) = [] \<and>
   registered_uuids
     (fst (registerDevices sample_runtime [sample_device ''A'' 80 ''off'']
        (ExampleHomebridgePlatform (JStr ''key''))))
     (fst (registerDevices sample_runtime [sample_device ''A'' 80 ''off'']
        (fst (registerDevices sample_runtime [sample_device ''A'' 80 ''off'']
           (ExampleHomebridgePlatform (JStr ''key'')))))) = [''uuid-A''] \<and>
   host_calls (fst (registerDevices sample_runtime [sample_device ''A'' 80 ''off'']
        (fst (registerDevices sample_runtime [sample_device ''A'' 80 ''off'']
           (ExampleHomebridgePlatform (JStr ''key'')))))) =
     [RegisterPlatformAccessories 0, RegisterPlatformAccessories 1] \<and>
   map UUID (store (fst (registerDevices sample_runtime [sample_device ''A'' 80 ''off'']
        (fst (registerDevices sample_runtime [sample_device ''A'' 80 ''off'']
           (ExampleHomebridgePlatform (JStr ''key''))))))) = [''uuid-A'', ''uuid-A''] \<and>
   registered_uuids (ExampleHomebridgePlatform (JStr ''key''))
     (fst (registerDevices sample_runtime
        [sample_device ''C'' 80 ''off'', sample_device ''C'' 80 ''off'']
        (ExampleHomebridgePlatform (JStr ''key'')))) = [''uuid-C'', ''uuid-C'']"
  by code_simp

text \<open>
  C3, evaluated on the accessory A with brightness 50 and mode \<^verbatim>\<open>"calm5"\<close> and the
  fetched device A with brightness 80 and mode \<^verbatim>\<open>"off"\<close>. After the start-up
  reconciliation and after the poll the mapping holds the same reference, the brightness
  is 80 and the context field \<^verbatim>\<open>on\<close> is false; but \<^verbatim>\<open>modeId\<close> is still
  \<^verbatim>\<open>"calm5"\<close>, so the power pushed to the host by the handler's constructor is true
  and \<^verbatim>\<open>getOn\<close> answers true. In the poll, a device without a \<^verbatim>\<open>bulbId\<close> listed
  before A makes the uuid generation raise, and A keeps brightness 50.
\<close>

theorem reconciliation_leaves_power_on:
  "brightness (ctx (store platform_AB ! 0)) = JNum (Fin 50) \<and>
   modeId (ctx (store platform_AB ! 0)) = JStr ''calm5'' \<and>
   map_of (accessories platform_AB) ''uuid-A'' = Some 0 \<and>
   map_of (accessories (fst (registerDevices sample_runtime [sample_device ''A'' 80 ''off''] platform_AB)))
     ''uuid-A'' = Some 0 \<and>
   brightness (ctx (store (fst (registerDevices sample_runtime [sample_device ''A'' 80 ''off''] platform_AB)) ! 0))
     = JNum (Fin 80) \<and>
   on (ctx (store (fst (registerDevices sample_runtime [sample_device ''A'' 80 ''off''] platform_AB)) ! 0))
     = JBool False \<and>
   modeId (ctx (store (fst (registerDevices sample_runtime [sample_device ''A'' 80 ''off''] platform_AB)) ! 0))
     = JStr ''calm5'' \<and>
   char_On (store (fst (registerDevices sample_runtime [sample_device ''A'' 80 ''off''] platform_AB)) ! 0)
     = Some (JBool True) \<and>
   getOn ((sample_bulb ''A'' 50 ''calm5'')
            \<lparr>accessory := store (fst (registerDevices sample_runtime [sample_device ''A'' 80 ''off''] platform_AB)) ! 0\<rparr>)
     = JBool True \<and>
   brightness (ctx (store (syncDevices sample_runtime [sample_device ''A'' 80 ''off''] platform_AB) ! 0))
     = JNum (Fin 80) \<and>
   on (ctx (store (syncDevices sample_runtime [sample_device ''A'' 80 ''off''] platform_AB) ! 0))
     = JBool False \<and>
   modeId (ctx (store (syncDevices sample_runtime [sample_device ''A'' 80 ''off''] platform_AB) ! 0))
     = JStr ''calm5'' \<and>
   char_On (store (syncDevices sample_runtime [sample_device ''A'' 80 ''off''] platform_AB) ! 0)
     = Some (JBool True) \<and>
   getOn ((sample_bulb ''A'' 50 ''calm5'')
            \<lparr>accessory := store (syncDevices sample_runtime [sample_device ''A'' 80 ''off''] platform_AB) ! 0\<rparr>)
     = JBool True \<and>
   brightness (ctx (store (syncDevices sample_runtime
       [(sample_device ''X'' 10 ''calm5'')\<lparr>bulbId := JUndefined\<rparr>, sample_device ''A'' 80 ''off'']
       platform_AB) ! 0)) = JNum (Fin 50)"
  by code_simp

section \<open>The accessory handler\<close>

lemma debug_fields:
  "accessory (debug m b) = accessory b"
  "net (debug m b) = net b"
  "lastChanged (debug m b) = lastChanged b"
  by (simp_all add: debug_def)

lemma error_fields:
  "accessory (error m b) = accessory b"
  "net (error m b) = net b"
  "lastChanged (error m b) = lastChanged b"
  by (simp_all add: error_def)

text \<open>
  Whatever happens to the request, the accessory after a handler has run is the
  accessory before with the handler's local update: nothing is rolled back.
\<close>

lemma setBrightness_accessory:
  "accessory (fst (setBrightness rt oc now v b)) =
     (accessory b)\<lparr>ctx := (ctx (accessory b))\<lparr>brightness := v\<rparr>\<rparr>"
  by (cases oc)
     (simp_all add: setBrightness_def setBrightness_local_def Let_def sendBulbUpdateToServer_def
        debug_fields error_fields)

lemma setOn_accessory:
  "accessory (fst (setOn rt oc now v b)) =
     (accessory b)\<lparr>ctx := (ctx (accessory b))
        \<lparr>modeId := JStr (if truthy v then deviceModes_on else deviceModes_off)\<rparr>\<rparr>"
  by (cases oc)
     (simp_all add: setOn_def setOn_local_def Let_def sendBulbUpdateToServer_def
        debug_fields error_fields)

lemma setOn_local_accessory:
  "accessory (setOn_local now v b) = accessory (fst (setOn rt oc now v b))"
  by (simp add: setOn_accessory) (simp add: setOn_local_def Let_def debug_fields)

lemma handlers_fulfilled:
  "snd (setOn rt oc now v b) = Fulfilled ()"
  "snd (setBrightness rt oc now v b) = Fulfilled ()"
  by (simp_all add: setOn_def setBrightness_def Let_def)

lemma setOn_requests:
  "requests (net (fst (setOn rt oc now v b))) =
     requests (net b) @
       (if oc = SendThrows then []
        else [\<lparr> body_groupId = groupId (ctx (accessory b)),
                 body_modeId = JStr (if truthy v then deviceModes_on else deviceModes_off),
                 body_brightness = (if truthy v then js_Number rt (brightness (ctx (accessory b)))
                                    else JNum (Fin 5)),
                 body_red = red (ctx (accessory b)), body_green = green (ctx (accessory b)),
                 body_blue = blue (ctx (accessory b)), body_violet = violet (ctx (accessory b)),
                 body_whiteColor = whiteColor (ctx (accessory b)) \<rparr>])"
  by (cases oc)
     (simp_all add: setOn_def setOn_local_def setOn_aBulb_def snapshot_def getBrightness_def Let_def
        sendBulbUpdateToServer_def debug_fields error_fields)

lemma setBrightness_requests:
  "requests (net (fst (setBrightness rt oc now v b))) =
     requests (net b) @
       (if oc = SendThrows then []
        else [\<lparr> body_groupId = groupId (ctx (accessory b)),
                 body_modeId = JStr deviceModes_on,
                 body_brightness = js_Number rt v,
                 body_red = red (ctx (accessory b)), body_green = green (ctx (accessory b)),
                 body_blue = blue (ctx (accessory b)), body_violet = violet (ctx (accessory b)),
                 body_whiteColor = whiteColor (ctx (accessory b)) \<rparr>])"
  by (cases oc)
     (simp_all add: setBrightness_def setBrightness_local_def setBrightness_aBulb_def snapshot_def
        Let_def sendBulbUpdateToServer_def debug_fields error_fields)

text \<open>
  C7, evaluated on an accessory that is off (local \<^verbatim>\<open>modeId\<close> \<^verbatim>\<open>"off"\<close>, brightness
  70) with \<^verbatim>\<open>setBrightness(30)\<close>: the local brightness becomes 30 and the request
  carries the mode \<^verbatim>\<open>"calm5"\<close>, but the local \<^verbatim>\<open>modeId\<close> stays \<^verbatim>\<open>"off"\<close> and
  \<^verbatim>\<open>getOn\<close> still answers false.
\<close>

theorem setBrightness_keeps_local_modeId:
  "modeId (ctx (accessory (sample_bulb ''A'' 70 ''off''))) = JStr ''off'' \<and>
   modeId (ctx (accessory (fst (setBrightness sample_runtime FetchFulfilled 1 (JNum (Fin 30))
      (sample_bulb ''A'' 70 ''off''))))) = JStr ''off'' \<and>
   brightness (ctx (accessory (fst (setBrightness sample_runtime FetchFulfilled 1 (JNum (Fin 30))
      (sample_bulb ''A'' 70 ''off''))))) = JNum (Fin 30) \<and>
   getOn (fst (setBrightness sample_runtime FetchFulfilled 1 (JNum (Fin 30))
      (sample_bulb ''A'' 70 ''off''))) = JBool False \<and>
   map body_modeId (requests (net (fst (setBrightness sample_runtime FetchFulfilled 1 (JNum (Fin 30))
      (sample_bulb ''A'' 70 ''off''))))) = [JStr ''calm5'']"
  by code_simp

text \<open>
  C8, as the code has it. \<^verbatim>\<open>setOn\<close> with a falsy value builds a snapshot with mode
  \<^verbatim>\<open>"off"\<close> and brightness 5 and sets the local \<^verbatim>\<open>modeId\<close> to \<^verbatim>\<open>"off"\<close>; the power
  state read by \<^verbatim>\<open>getOn\<close> is off as soon as the local update is made, before anything
  is sent, and stays off whatever happens to the request. With a truthy value the local
  \<^verbatim>\<open>modeId\<close> becomes the "on" mode and the snapshot carries \<^verbatim>\<open>Number\<close> of the local
  brightness. In both cases the local brightness is left as it was: the 5 is only sent.
  Unless an exception is raised before the request is issued, the request carries the
  snapshot's mode and brightness; \<^verbatim>\<open>setOn\<close> always completes.
\<close>

theorem setOn_power:
  "(\<not> truthy v \<longrightarrow>
      modeId (setOn_aBulb rt v (setOn_local now v b)) = JStr deviceModes_off \<and>
      brightness (setOn_aBulb rt v (setOn_local now v b)) = JNum (Fin 5) \<and>
      getOn (setOn_local now v b) = JBool False \<and>
      modeId (ctx (accessory (fst (setOn rt oc now v b)))) = JStr deviceModes_off \<and>
      getOn (fst (setOn rt oc now v b)) = JBool False) \<and>
   (truthy v \<longrightarrow>
      modeId (setOn_aBulb rt v (setOn_local now v b)) = JStr deviceModes_on \<and>
      brightness (setOn_aBulb rt v (setOn_local now v b)) =
        js_Number rt (brightness (ctx (accessory b))) \<and>
      modeId (ctx (accessory (fst (setOn rt oc now v b)))) = JStr deviceModes_on) \<and>
   brightness (ctx (accessory (fst (setOn rt oc now v b)))) = brightness (ctx (accessory b)) \<and>
   requests (net (fst (setOn rt oc now v b))) =
     requests (net b) @
       (if oc = SendThrows then []
        else [\<lparr> body_groupId = groupId (ctx (accessory b)),
                 body_modeId = modeId (setOn_aBulb rt v (setOn_local now v b)),
                 body_brightness = brightness (setOn_aBulb rt v (setOn_local now v b)),
                 body_red = red (ctx (accessory b)), body_green = green (ctx (accessory b)),
                 body_blue = blue (ctx (accessory b)), body_violet = violet (ctx (accessory b)),
                 body_whiteColor = whiteColor (ctx (accessory b)) \<rparr>]) \<and>
   snd (setOn rt oc now v b) = Fulfilled ()"
proof -
  have loc: "ctx (accessory (setOn_local now v b)) =
      (ctx (accessory b))\<lparr>modeId := JStr (if truthy v then deviceModes_on else deviceModes_off)\<rparr>"
    by (simp add: setOn_local_def Let_def debug_fields)
  have payload: "modeId (setOn_aBulb rt v (setOn_local now v b)) =
        JStr (if truthy v then deviceModes_on else deviceModes_off)"
      "brightness (setOn_aBulb rt v (setOn_local now v b)) =
        (if truthy v then js_Number rt (brightness (ctx (accessory b))) else JNum (Fin 5))"
    by (simp_all add: setOn_aBulb_def snapshot_def getBrightness_def loc Let_def)
  show ?thesis
    by (simp add: payload handlers_fulfilled setOn_accessory setOn_requests getOn_def
          getModeId_def loc)
qed

text \<open>
  The theorem at \<^verbatim>\<open>setOn(false)\<close> on an accessory with brightness 70, the request being
  rejected, and at \<^verbatim>\<open>setOn(true)\<close> on an accessory that is off.
\<close>

theorem setOn_power_witness:
  "\<not> truthy (JBool False) \<and> truthy (JBool True) \<and>
   brightness (ctx (accessory (sample_bulb ''A'' 70 ''calm5''))) = JNum (Fin 70) \<and>
   modeId (setOn_aBulb sample_runtime (JBool False)
     (setOn_local 1 (JBool False) (sample_bulb ''A'' 70 ''calm5''))) = JStr ''off'' \<and>
   brightness (setOn_aBulb sample_runtime (JBool False)
     (setOn_local 1 (JBool False) (sample_bulb ''A'' 70 ''calm5''))) = JNum (Fin 5) \<and>
   getOn (setOn_local 1 (JBool False) (sample_bulb ''A'' 70 ''calm5'')) = JBool False \<and>
   modeId (ctx (accessory (fst (setOn sample_runtime FetchRejected 1 (JBool False)
     (sample_bulb ''A'' 70 ''calm5''))))) = JStr ''off'' \<and>
   brightness (ctx (accessory (fst (setOn sample_runtime FetchRejected 1 (JBool False)
     (sample_bulb ''A'' 70 ''calm5''))))) = JNum (Fin 70) \<and>
   modeId (ctx (accessory (fst (setOn sample_runtime FetchFulfilled 1 (JBool True)
     (sample_bulb ''A'' 70 ''off''))))) = JStr ''calm5'' \<and>
   brightness (setOn_aBulb sample_runtime (JBool True)
     (setOn_local 1 (JBool True) (sample_bulb ''A'' 70 ''off''))) = JNum (Fin 70)"
proof -
  have f: "\<not> truthy (JBool False)" and t: "truthy (JBool True)" by simp_all
  have b: "brightness (ctx (accessory (sample_bulb ''A'' 70 ''calm5''))) = JNum (Fin 70)"
      "brightness (ctx (accessory (sample_bulb ''A'' 70 ''off''))) = JNum (Fin 70)"
    by (simp_all add: sample_bulb_def sample_accessory_def sample_device_def
          TuoLifeBulbDevice.extend_def)
  have n: "js_Number sample_runtime (JNum (Fin 70)) = JNum (Fin 70)"
    by (simp add: js_Number_def)
  show ?thesis
    using f t b n
      setOn_power [of "JBool False" sample_runtime 1 "sample_bulb ''A'' 70 ''calm5''" FetchRejected]
      setOn_power [of "JBool True" sample_runtime 1 "sample_bulb ''A'' 70 ''off''" FetchFulfilled]
    by (simp add: deviceModes_off_def deviceModes_on_def)
qed

text \<open>
  C8 as the specification words it fails on the local brightness: after
  \<^verbatim>\<open>setOn(false)\<close> on an accessory with brightness 70 the local brightness is 70, not 5.
\<close>

theorem setOn_local_brightness_counterexample:
  "brightness (ctx (accessory (fst (setOn sample_runtime FetchFulfilled 1 (JBool False)
      (sample_bulb ''A'' 70 ''calm5''))))) = JNum (Fin 70) \<and>
   brightness (ctx (accessory (fst (setOn sample_runtime FetchFulfilled 1 (JBool False)
      (sample_bulb ''A'' 70 ''calm5''))))) \<noteq> JNum (Fin 5)"
  by code_simp

text \<open>
  C9, evaluated on \<^verbatim>\<open>setOn(false)\<close> and \<^verbatim>\<open>setBrightness(30)\<close> when the POST request
  is rejected. The promise of \<^verbatim>\<open>fetch\<close> is not awaited, so the \<^verbatim>\<open>catch\<close> of the
  handler never sees the rejection: no error line is written, the line
  \<^verbatim>\<open>Successfully sent update to server\<close> is, and the rejection is left unhandled. The
  local update stays and the handler completes.
\<close>

theorem rejected_send_is_not_logged:
  "setOn sample_runtime FetchRejected 1 (JBool False) (sample_bulb ''A'' 70 ''calm5'') =
     (\<lparr> accessory = sample_accessory ''A'' 70 ''off'', lastChanged = 1,
         platform_log = [(LDebug, ''setOn called with value:''), (LDebug, ''Turning off device''),
                         (LDebug, ''Successfully sent update to server''),
                         (LDebug, ''Set Characteristic On ->'')],
         net = \<lparr> requests = [\<lparr> body_groupId = JStr ''g'', body_modeId = JStr ''off'',
                                  body_brightness = JNum (Fin 5), body_red = JNum (Fin 0),
                                  body_green = JNum (Fin 0), body_blue = JNum (Fin 0),
                                  body_violet = JNum (Fin 0), body_whiteColor = JNum (Fin 0) \<rparr>],
                  unhandled = [FetchError] \<rparr> \<rparr>, Fulfilled ()) \<and>
   errors_logged (platform_log (fst (setOn sample_runtime FetchRejected 1 (JBool False)
      (sample_bulb ''A'' 70 ''calm5'')))) = 0 \<and>
   errors_logged (platform_log (fst (setBrightness sample_runtime FetchRejected 1 (JNum (Fin 30))
      (sample_bulb ''A'' 70 ''calm5'')))) = 0 \<and>
   unhandled (net (fst (setBrightness sample_runtime FetchRejected 1 (JNum (Fin 30))
      (sample_bulb ''A'' 70 ''calm5'')))) = [FetchError]"
  by code_simp

section \<open>The event loop\<close>

lemma configureAccessory_flag:
  "isDiscoveryInProgress (configureAccessory a p) = isDiscoveryInProgress p"
  by (simp add: configureAccessory_def Let_def say_fields)

lemma discoverDevices_resume_flag:
  "isDiscoveryInProgress (fst (discoverDevices_resume rt r p)) = isDiscoveryInProgress p"
  by (cases "getDevicesAndStatesFromServer r (log_lines p)";
      cases "snd (getDevicesAndStatesFromServer r (log_lines p))")
     (simp_all add: discoverDevices_resume_def registerDevices_flag)

lemma syncBulbsWithServer_resume_flag:
  "isDiscoveryInProgress (syncBulbsWithServer_resume rt r p) = isDiscoveryInProgress p"
  by (cases "getDevicesAndStatesFromServer r (log_lines p)";
      cases "snd (getDevicesAndStatesFromServer r (log_lines p))")
     (simp_all add: syncBulbsWithServer_resume_def syncDevices_fields say_fields)

lemma settle_flag:
  "isDiscoveryInProgress (plat (settle rt i r w)) = isDiscoveryInProgress (plat w)"
proof -
  obtain p e where d: "discoverDevices_resume rt r (plat w) = (p, e)"
    by (cases "discoverDevices_resume rt r (plat w)")
  have "isDiscoveryInProgress p = isDiscoveryInProgress (plat w)"
    using discoverDevices_resume_flag [of rt r "plat w"] d by simp
  then show ?thesis
    using d
    by (cases e)
       (simp_all add: settle_def Let_def syncBulbsWithServer_resume_flag split: waiting.splits)
qed

lemma settle_fetch_calls: "fetch_calls (settle rt i r w) = fetch_calls w"
  by (cases "discoverDevices_resume rt r (plat w)"; cases "snd (discoverDevices_resume rt r (plat w))")
     (simp_all add: settle_def Let_def split: waiting.splits)

text \<open>No event clears the flag; only the launch event sets it.\<close>

lemma step_flag:
  "isDiscoveryInProgress (plat (step rt w e)) =
     (isDiscoveryInProgress (plat w) \<or> e = DidFinishLaunching)"
  by (cases e)
     (simp_all add: discoverDevices_def syncBulbsWithServer_def settle_flag say_fields
        configureAccessory_flag)

lemma step_fetch_calls:
  "fetch_calls (step rt w e) =
     fetch_calls w + (if e = IntervalFires then 1 else 0)
                   + (if e = DidFinishLaunching \<and> \<not> isDiscoveryInProgress (plat w) then 1 else 0)"
  by (cases e)
     (simp_all add: discoverDevices_def syncBulbsWithServer_def settle_fetch_calls say_fields)

lemma run_flag:
  "isDiscoveryInProgress (plat (run rt w es)) =
     (isDiscoveryInProgress (plat w) \<or> DidFinishLaunching \<in> set es)"
  by (induction es arbitrary: w) (auto simp: step_flag simp del: step.simps)

lemma run_fetch_calls:
  "fetch_calls (run rt w es) =
     fetch_calls w + length (filter (\<lambda>e. e = IntervalFires) es)
       + (if DidFinishLaunching \<in> set es \<and> \<not> isDiscoveryInProgress (plat w) then 1 else 0)"
proof (induction es arbitrary: w)
  case Nil
  show ?case by simp
next
  case (Cons e es)
  show ?case
    by (simp add: Cons.IH step_fetch_calls step_flag del: step.simps)
qed

lemma discoverDevices_skips:
  assumes "isDiscoveryInProgress (plat w)"
  shows "discoverDevices w =
           w\<lparr>plat := say LDebug ''Device discovery already in progress, skipping...'' (plat w)\<rparr>"
  using assms by (simp add: discoverDevices_def)

lemma discoverDevices_flag: "isDiscoveryInProgress (plat (discoverDevices w))"
  by (simp add: discoverDevices_def say_fields)

lemma launch_flag: "isDiscoveryInProgress (plat (step rt w DidFinishLaunching))"
  by (simp add: step_flag del: step.simps)

text \<open>
  C4, as the code has it. The guard is in \<^verbatim>\<open>discoverDevices\<close> only. A call of
  \<^verbatim>\<open>discoverDevices\<close> that finds the flag set issues no request, leaves the pending
  requests as they are and changes the platform by one debug line; so a first call
  issues one request, and a second call, whatever happens in between, issues none. The
  poll has no guard: every call of \<^verbatim>\<open>syncBulbsWithServer\<close> issues its own request and
  adds a pending pass, whatever is already pending.
\<close>

theorem discovery_guard:
  "(isDiscoveryInProgress (plat w) \<longrightarrow>
      fetch_calls (discoverDevices w) = fetch_calls w \<and>
      pending (discoverDevices w) = pending w \<and>
      plat (discoverDevices w) =
        say LDebug ''Device discovery already in progress, skipping...'' (plat w)) \<and>
   (\<not> isDiscoveryInProgress (plat w) \<longrightarrow>
      fetch_calls (discoverDevices w) = Suc (fetch_calls w) \<and>
      pending (discoverDevices w) = pending w @ [Discover]) \<and>
   fetch_calls (discoverDevices (run rt (discoverDevices w) es)) =
     fetch_calls (run rt (discoverDevices w) es) \<and>
   pending (discoverDevices (run rt (discoverDevices w) es)) =
     pending (run rt (discoverDevices w) es) \<and>
   fetch_calls (syncBulbsWithServer w) = Suc (fetch_calls w) \<and>
   pending (syncBulbsWithServer w) = pending w @ [Sync] \<and>
   plat (syncBulbsWithServer w) = plat w"
proof -
  have "isDiscoveryInProgress (plat (run rt (discoverDevices w) es))"
    by (simp add: run_flag discoverDevices_flag)
  then have "discoverDevices (run rt (discoverDevices w) es) =
      (run rt (discoverDevices w) es)
        \<lparr>plat := say LDebug ''Device discovery already in progress, skipping...''
                   (plat (run rt (discoverDevices w) es))\<rparr>"
    by (rule discoverDevices_skips)
  then show ?thesis
    by (simp add: syncBulbsWithServer_def) (simp add: discoverDevices_def)
qed

text \<open>
  The theorem right after the constructor, where the flag is clear, and after a first
  call, where it is set: two calls in a row issue one request.
\<close>

theorem discovery_guard_witness:
  "\<not> isDiscoveryInProgress (plat (boot (JStr ''key''))) \<and>
   fetch_calls (discoverDevices (boot (JStr ''key''))) = 1 \<and>
   pending (discoverDevices (boot (JStr ''key''))) = [Discover] \<and>
   isDiscoveryInProgress (plat (discoverDevices (boot (JStr ''key'')))) \<and>
   fetch_calls (discoverDevices (discoverDevices (boot (JStr ''key'')))) = 1 \<and>
   pending (discoverDevices (discoverDevices (boot (JStr ''key'')))) = [Discover]"
proof -
  have b: "\<not> isDiscoveryInProgress (plat (boot (JStr ''key'')))"
      "fetch_calls (boot (JStr ''key'')) = 0" "pending (boot (JStr ''key'')) = []"
    by (simp_all add: boot_def ExampleHomebridgePlatform_def Let_def say_fields)
  have d: "isDiscoveryInProgress (plat (discoverDevices (boot (JStr ''key''))))"
    by (rule discoverDevices_flag)
  show ?thesis
    using b d
      discovery_guard [of "boot (JStr ''key'')" sample_runtime "[]"]
      discovery_guard [of "discoverDevices (boot (JStr ''key''))" sample_runtime "[]"]
    by simp
qed

text \<open>
  C4 as the specification words it fails on the poll: two firings of the interval
  before any response issue two requests and leave two passes pending; a poll during the
  start-up discovery is pending beside it.
\<close>

theorem two_polls_two_fetches_counterexample:
  "fetch_calls (run sample_runtime (boot (JStr ''key'')) [IntervalFires, IntervalFires]) = 2 \<and>
   pending (run sample_runtime (boot (JStr ''key'')) [IntervalFires, IntervalFires]) = [Sync, Sync] \<and>
   pending (run sample_runtime (boot (JStr ''key'')) [DidFinishLaunching, IntervalFires]) =
     [Discover, Sync]"
  by code_simp

text \<open>
  C10. After the launch event has called \<^verbatim>\<open>discoverDevices\<close> once, the flag is set
  after every further sequence of events (cached accessories handed over, launch events,
  interval firings, responses coming back, in any order), and a further call of
  \<^verbatim>\<open>discoverDevices\<close> returns the world as it is but for one debug line: no request,
  no registration. A further launch event does the same after the debug line of its
  callback. From the constructor on, the requests issued are one per interval firing,
  plus one if the launch event occurred at all.
\<close>

theorem discovery_runs_once:
  "isDiscoveryInProgress (plat (run rt (step rt w DidFinishLaunching) es)) \<and>
   discoverDevices (run rt (step rt w DidFinishLaunching) es) =
     (run rt (step rt w DidFinishLaunching) es)
       \<lparr>plat := say LDebug ''Device discovery already in progress, skipping...''
                  (plat (run rt (step rt w DidFinishLaunching) es))\<rparr> \<and>
   step rt (run rt (step rt w DidFinishLaunching) es) DidFinishLaunching =
     (run rt (step rt w DidFinishLaunching) es)
       \<lparr>plat := say LDebug ''Device discovery already in progress, skipping...''
                  (say LDebug ''Executed didFinishLaunching callback''
                     (plat (run rt (step rt w DidFinishLaunching) es)))\<rparr> \<and>
   fetch_calls (run rt (boot k) es) =
     length (filter (\<lambda>e. e = IntervalFires) es) + (if DidFinishLaunching \<in> set es then 1 else 0)"
proof -
  let ?w = "run rt (step rt w DidFinishLaunching) es"
  have f: "isDiscoveryInProgress (plat ?w)"
    by (simp add: run_flag launch_flag del: step.simps)
  have b: "\<not> isDiscoveryInProgress (plat (boot k))" "fetch_calls (boot k) = 0"
    by (simp_all add: boot_def ExampleHomebridgePlatform_def Let_def say_fields)
  have s: "step rt ?w DidFinishLaunching =
     ?w\<lparr>plat := say LDebug ''Device discovery already in progress, skipping...''
                  (say LDebug ''Executed didFinishLaunching callback'' (plat ?w))\<rparr>"
    using f by (simp add: discoverDevices_def say_fields)
  show ?thesis
    using f b s by (simp add: discoverDevices_skips run_fetch_calls del: step.simps)
qed

text \<open>
  The theorem on a run in which the discovery completes and the launch event occurs
  again: one request for the discovery, one for the poll.
\<close>

theorem discovery_runs_once_witness:
  "isDiscoveryInProgress (plat (run sample_runtime
      (step sample_runtime (boot (JStr ''key'')) DidFinishLaunching)
      [FetchSettles 0 (Body (JArr [])), IntervalFires])) \<and>
   fetch_calls (run sample_runtime (boot (JStr ''key''))
      [DidFinishLaunching, FetchSettles 0 (Body (JArr [])), DidFinishLaunching, IntervalFires,
       DidFinishLaunching]) = 2"
  using discovery_runs_once [of sample_runtime "boot (JStr ''key'')"
          "[FetchSettles 0 (Body (JArr [])), IntervalFires]" "JStr ''key''"]
        discovery_runs_once [of sample_runtime "boot (JStr ''key'')"
          "[DidFinishLaunching, FetchSettles 0 (Body (JArr [])), DidFinishLaunching, IntervalFires,
            DidFinishLaunching]" "JStr ''key''"]
  by (simp del: step.simps)

end
